theory Spec2Isabelle
  imports Complex_Main
begin

section \<open>Values, arrays and exceptions\<close>

text \<open>
  The class \<open>AGraph\<close> of \<open>agraph.cpp\<close> stores and returns \<open>double\<close> values but performs no
  floating-point arithmetic itself: it copies them, fills arrays with \<open>1.0\<close> or with the quiet
  NaN, and assigns the constant \<open>1e9\<close>. A \<open>double\<close> is therefore modelled by its value: a
  finite number, one of the two infinities, or NaN.
\<close>

datatype double = Finite real | PosInf | NegInf | NaN

definition kFitnessNotSet :: double where
  "kFitnessNotSet = Finite 1000000000"

definition kNaN :: double where
  "kNaN = NaN"

text \<open>
  A row of an \<open>Eigen::ArrayX3i\<close>: the three columns \<open>kOpIdx = 0\<close>,
  \<open>kFirstArgumentIndex = 1\<close> and \<open>kSecondArgumentIndex = 2\<close>. The array is the list of its rows.
\<close>

datatype command = Command (op_idx: int) (first_arg: int) (second_arg: int)

type_synonym array_x3i = "command list"

text \<open>
  An \<open>Eigen::ArrayXXd\<close>: its number of columns and the list of its rows. The number of rows
  is the length of that list, so that an array with no rows still has a number of columns.
\<close>

record array_xxd =
  cols :: nat
  coeffs :: "double list list"

definition rows :: "array_xxd \<Rightarrow> nat" where
  "rows a = length (coeffs a)"

text \<open>\<open>Eigen::ArrayXXd::Constant(r, c, v)\<close>.\<close>

definition Constant :: "nat \<Rightarrow> nat \<Rightarrow> double \<Rightarrow> array_xxd" where
  "Constant r c v = \<lparr>cols = c, coeffs = replicate r (replicate c v)\<rparr>"

text \<open>
  \<open>a.conservativeResize(k, Eigen::NoChange)\<close> for \<open>k \<le> a.rows()\<close>: the first \<open>k\<close> rows are
  kept, the number of columns stays. Eigen leaves the coefficients of added rows
  uninitialised; the only call in \<open>agraph.cpp\<close> is guarded by \<open>k \<le> a.rows()\<close>, and the
  definition is used under that guard only.
\<close>

definition conservativeResize :: "nat \<Rightarrow> array_xxd \<Rightarrow> array_xxd" where
  "conservativeResize k a = a\<lparr>coeffs := take k (coeffs a)\<rparr>"

text \<open>
  The exceptions the code distinguishes: the two it catches, \<open>std::underflow_error\<close> and
  \<open>std::overflow_error\<close>, and every other exception, which no handler of \<open>agraph.cpp\<close>
  catches.
\<close>

datatype exn = UnderflowError | OverflowError | OtherException

section \<open>The collaborators\<close>

text \<open>
  The headers and the backends (\<open>operator_definitions.h\<close>, \<open>evaluation_backend\<close>,
  \<open>simplification_backend\<close>, \<open>string_generation\<close>) are not part of the source at hand. They
  are parameters of the model: the opcode \<open>Op::kConstant\<close> and one function per backend entry
  point that \<open>agraph.cpp\<close> calls. A backend call either returns a value or throws.
\<close>

record backends =
  kConstant :: int
  evaluation_backend_Evaluate ::
    "array_x3i \<Rightarrow> array_xxd \<Rightarrow> array_xxd \<Rightarrow> exn + array_xxd"
  evaluation_backend_EvaluateWithDerivative ::
    "array_x3i \<Rightarrow> array_xxd \<Rightarrow> array_xxd \<Rightarrow> bool \<Rightarrow> exn + (array_xxd \<times> array_xxd)"
  simplification_backend_PythonSimplifyStack :: "array_x3i \<Rightarrow> exn + array_x3i"
  simplification_backend_SimplifyStack :: "array_x3i \<Rightarrow> exn + array_x3i"
  simplification_backend_GetUtilizedCommands :: "array_x3i \<Rightarrow> exn + bool list"
  string_generation_GetFormattedString ::
    "string \<Rightarrow> array_x3i \<Rightarrow> array_xxd \<Rightarrow> exn + string"

section \<open>The class AGraph\<close>

text \<open>
  The nine data members of \<open>AGraph\<close>, without the trailing underscore of their names.
  \<open>updates_completed\<close> is a ghost field: it is no member of the class, no method reads it,
  and only \<open>update\<close> writes it, adding one each time it runs to its end.
\<close>

record agraph =
  command_array :: array_x3i
  simplified_command_array :: array_x3i
  simplified_constants :: array_xxd
  needs_opt :: bool
  fitness :: double
  fit_set :: bool
  genetic_age :: int
  modified :: bool
  use_simplification :: bool
  updates_completed :: nat

type_synonym AGraphState =
  "array_x3i \<times> array_x3i \<times> array_xxd \<times> bool \<times> double \<times> bool \<times> int \<times> bool \<times> bool"

text \<open>A method returns its value or throws, and leaves the object in a state.\<close>

type_synonym 'a outcome = "(exn + 'a) \<times> agraph"

definition AGraph :: "bool \<Rightarrow> agraph" where
  "AGraph use_simplification' =
     \<lparr>command_array = [],
      simplified_command_array = [],
      simplified_constants = \<lparr>cols = 1, coeffs = []\<rparr>,
      needs_opt = False,
      fitness = kFitnessNotSet,
      fit_set = False,
      genetic_age = 0,
      modified = False,
      use_simplification = use_simplification',
      updates_completed = 0\<rparr>"

definition AGraph_from_state :: "AGraphState \<Rightarrow> agraph" where
  "AGraph_from_state state =
     (case state of (ca, sca, sc, no, f, fs, ga, m, us) \<Rightarrow>
        \<lparr>command_array = ca,
         simplified_command_array = sca,
         simplified_constants = sc,
         needs_opt = no,
         fitness = f,
         fit_set = fs,
         genetic_age = ga,
         modified = m,
         use_simplification = us,
         updates_completed = 0\<rparr>)"

definition DumpState :: "agraph \<Rightarrow> AGraphState" where
  "DumpState s =
     (command_array s, simplified_command_array s, simplified_constants s, needs_opt s,
      fitness s, fit_set s, genetic_age s, modified s, use_simplification s)"

definition Copy :: "agraph \<Rightarrow> agraph" where
  "Copy s = s\<lparr>updates_completed := 0\<rparr>"

definition GetCommandArray :: "agraph \<Rightarrow> array_x3i" where
  "GetCommandArray s = command_array s"

definition notify_agraph_modification :: "agraph \<Rightarrow> agraph" where
  "notify_agraph_modification s =
     s\<lparr>fitness := kFitnessNotSet, fit_set := False, modified := True\<rparr>"

text \<open>
  \<open>GetCommandArrayModifiable\<close> notifies and then hands out a reference to the member. The
  model returns the array the reference denotes and the state. A later store through the
  reference runs no method of the class: it is \<open>store_through_reference\<close>.
\<close>

definition GetCommandArrayModifiable :: "agraph \<Rightarrow> array_x3i \<times> agraph" where
  "GetCommandArrayModifiable s =
     (let s1 = notify_agraph_modification s in (command_array s1, s1))"

definition store_through_reference :: "array_x3i \<Rightarrow> agraph \<Rightarrow> agraph" where
  "store_through_reference ca s = s\<lparr>command_array := ca\<rparr>"

definition SetCommandArray :: "array_x3i \<Rightarrow> agraph \<Rightarrow> agraph" where
  "SetCommandArray ca s = notify_agraph_modification (s\<lparr>command_array := ca\<rparr>)"

definition GetFitness :: "agraph \<Rightarrow> double" where
  "GetFitness s = fitness s"

definition SetFitness :: "double \<Rightarrow> agraph \<Rightarrow> agraph" where
  "SetFitness f s = s\<lparr>fitness := f, fit_set := True\<rparr>"

definition IsFitnessSet :: "agraph \<Rightarrow> bool" where
  "IsFitnessSet s = fit_set s"

definition SetFitnessStatus :: "bool \<Rightarrow> agraph \<Rightarrow> agraph" where
  "SetFitnessStatus val s = s\<lparr>fit_set := val\<rparr>"

definition SetGeneticAge :: "int \<Rightarrow> agraph \<Rightarrow> agraph" where
  "SetGeneticAge age s = s\<lparr>genetic_age := age\<rparr>"

definition GetGeneticAge :: "agraph \<Rightarrow> int" where
  "GetGeneticAge s = genetic_age s"

text \<open>A \<open>const\<close> method: it returns a value or throws, and has no state to return.\<close>

definition GetUtilizedCommands :: "backends \<Rightarrow> agraph \<Rightarrow> exn + bool list" where
  "GetUtilizedCommands bk s = simplification_backend_GetUtilizedCommands bk (command_array s)"

subsection \<open>The update pipeline\<close>

definition updateSimplifiedCommandArray :: "backends \<Rightarrow> agraph \<Rightarrow> unit outcome" where
  "updateSimplifiedCommandArray bk s =
     (if use_simplification s then
        (case simplification_backend_PythonSimplifyStack bk (command_array s) of
           Inl e \<Rightarrow> (Inl e, s)
         | Inr a \<Rightarrow> (Inr (), s\<lparr>simplified_command_array := a\<rparr>))
      else
        (case simplification_backend_SimplifyStack bk (command_array s) of
           Inl e \<Rightarrow> (Inl e, s)
         | Inr a \<Rightarrow> (Inr (), s\<lparr>simplified_command_array := a\<rparr>)))"

text \<open>
  The loop of \<open>countAndUpdateConstants\<close>, from row \<open>i\<close> on with \<open>new_const_number = n\<close>. The
  counter is an \<open>int\<close> that never exceeds the number of rows, itself an \<open>int\<close>.
\<close>

function countAndUpdateConstants_loop ::
  "int \<Rightarrow> array_x3i \<Rightarrow> nat \<Rightarrow> nat \<Rightarrow> array_x3i \<times> nat" where
  "countAndUpdateConstants_loop kc a i n =
     (if i < length a then
        (if op_idx (a ! i) = kc
         then countAndUpdateConstants_loop kc
                (a[i := Command kc (int n) (int n)]) (Suc i) (Suc n)
         else countAndUpdateConstants_loop kc a (Suc i) n)
      else (a, n))"
  by pat_completeness auto
termination
  by (relation "measure (\<lambda>(kc, a, i, n). length a - i)") auto

declare countAndUpdateConstants_loop.simps [simp del]

definition countAndUpdateConstants :: "backends \<Rightarrow> agraph \<Rightarrow> nat \<times> agraph" where
  "countAndUpdateConstants bk s =
     (case countAndUpdateConstants_loop (kConstant bk) (simplified_command_array s) 0 0 of
        (a, new_const_number) \<Rightarrow> (new_const_number, s\<lparr>simplified_command_array := a\<rparr>))"

definition performDefaultConstantResize :: "nat \<Rightarrow> agraph \<Rightarrow> agraph" where
  "performDefaultConstantResize const_number_input s =
     (let s1 = s\<lparr>simplified_constants := Constant const_number_input 1 (Finite 1)\<rparr>
      in if const_number_input > 0 then s1\<lparr>needs_opt := True\<rparr> else s1)"

definition resizeConstantsArrayIfNeeded :: "nat \<Rightarrow> agraph \<Rightarrow> agraph" where
  "resizeConstantsArrayIfNeeded const_number_input s =
     (let optimization_aggression = (0 :: int) in
      if optimization_aggression = 0 \<and> const_number_input \<le> rows (simplified_constants s)
      then s\<lparr>simplified_constants :=
                conservativeResize const_number_input (simplified_constants s)\<rparr>
      else if optimization_aggression = 1 \<and> const_number_input = rows (simplified_constants s)
      then s
      else performDefaultConstantResize const_number_input s)"

definition updateConstantsArray :: "backends \<Rightarrow> agraph \<Rightarrow> agraph" where
  "updateConstantsArray bk s =
     (case countAndUpdateConstants bk s of
        (new_const_number, s1) \<Rightarrow> resizeConstantsArrayIfNeeded new_const_number s1)"

definition update :: "backends \<Rightarrow> agraph \<Rightarrow> unit outcome" where
  "update bk s =
     (case updateSimplifiedCommandArray bk s of
        (Inl e, s1) \<Rightarrow> (Inl e, s1)
      | (Inr u, s1) \<Rightarrow>
          (Inr (), (updateConstantsArray bk s1)
                     \<lparr>modified := False, updates_completed := Suc (updates_completed s1)\<rparr>))"

text \<open>The prologue \<open>if (modified_) { update(); }\<close> that the derived accessors share.\<close>

definition update_if_modified :: "backends \<Rightarrow> agraph \<Rightarrow> unit outcome" where
  "update_if_modified bk s = (if modified s then update bk s else (Inr (), s))"

subsection \<open>Derived accessors\<close>

definition NeedsLocalOptimization :: "backends \<Rightarrow> agraph \<Rightarrow> bool outcome" where
  "NeedsLocalOptimization bk s =
     (case update_if_modified bk s of
        (Inl e, s1) \<Rightarrow> (Inl e, s1)
      | (Inr u, s1) \<Rightarrow> (Inr (needs_opt s1), s1))"

definition GetNumberLocalOptimizationParams :: "backends \<Rightarrow> agraph \<Rightarrow> nat outcome" where
  "GetNumberLocalOptimizationParams bk s =
     (case update_if_modified bk s of
        (Inl e, s1) \<Rightarrow> (Inl e, s1)
      | (Inr u, s1) \<Rightarrow> (Inr (rows (simplified_constants s1)), s1))"

definition SetLocalOptimizationParams :: "array_xxd \<Rightarrow> agraph \<Rightarrow> agraph" where
  "SetLocalOptimizationParams params s =
     s\<lparr>simplified_constants := params, needs_opt := False\<rparr>"

text \<open>An \<open>Eigen::VectorXd\<close> is a single column.\<close>

definition SetLocalOptimizationParamsV :: "double list \<Rightarrow> agraph \<Rightarrow> agraph" where
  "SetLocalOptimizationParamsV params s =
     s\<lparr>simplified_constants := \<lparr>cols = 1, coeffs = map (\<lambda>v. [v]) params\<rparr>,
       needs_opt := False\<rparr>"

definition SetLocalOptimizationParamsA :: "array_xxd \<Rightarrow> agraph \<Rightarrow> agraph" where
  "SetLocalOptimizationParamsA params s =
     s\<lparr>simplified_constants := params, needs_opt := False\<rparr>"

definition GetLocalOptimizationParams :: "agraph \<Rightarrow> array_xxd" where
  "GetLocalOptimizationParams s = simplified_constants s"

definition EvaluateEquationAt :: "backends \<Rightarrow> array_xxd \<Rightarrow> agraph \<Rightarrow> array_xxd outcome" where
  "EvaluateEquationAt bk x s =
     (case update_if_modified bk s of
        (Inl e, s1) \<Rightarrow> (Inl e, s1)
      | (Inr u, s1) \<Rightarrow>
          (case evaluation_backend_Evaluate bk
                  (simplified_command_array s1) x (simplified_constants s1) of
             Inr f_of_x \<Rightarrow> (Inr f_of_x, s1)
           | Inl UnderflowError \<Rightarrow> (Inr (Constant (rows x) (cols x) kNaN), s1)
           | Inl OverflowError \<Rightarrow> (Inr (Constant (rows x) (cols x) kNaN), s1)
           | Inl OtherException \<Rightarrow> (Inl OtherException, s1)))"

definition EvaluateEquationWithXGradientAt ::
  "backends \<Rightarrow> array_xxd \<Rightarrow> agraph \<Rightarrow> (array_xxd \<times> array_xxd) outcome" where
  "EvaluateEquationWithXGradientAt bk x s =
     (case update_if_modified bk s of
        (Inl e, s1) \<Rightarrow> (Inl e, s1)
      | (Inr u, s1) \<Rightarrow>
          (case evaluation_backend_EvaluateWithDerivative bk
                  (simplified_command_array s1) x (simplified_constants s1) True of
             Inr df_dx \<Rightarrow> (Inr df_dx, s1)
           | Inl UnderflowError \<Rightarrow>
               (let nan_array = Constant (rows x) (cols x) kNaN
                in (Inr (nan_array, nan_array), s1))
           | Inl OverflowError \<Rightarrow>
               (let nan_array = Constant (rows x) (cols x) kNaN
                in (Inr (nan_array, nan_array), s1))
           | Inl OtherException \<Rightarrow> (Inl OtherException, s1)))"

definition EvaluateEquationWithLocalOptGradientAt ::
  "backends \<Rightarrow> array_xxd \<Rightarrow> agraph \<Rightarrow> (array_xxd \<times> array_xxd) outcome" where
  "EvaluateEquationWithLocalOptGradientAt bk x s =
     (case update_if_modified bk s of
        (Inl e, s1) \<Rightarrow> (Inl e, s1)
      | (Inr u, s1) \<Rightarrow>
          (case evaluation_backend_EvaluateWithDerivative bk
                  (simplified_command_array s1) x (simplified_constants s1) False of
             Inr df_dc \<Rightarrow> (Inr df_dc, s1)
           | Inl UnderflowError \<Rightarrow>
               (let nan_array = Constant (rows x) (cols x) kNaN
                in (Inr (nan_array, nan_array), s1))
           | Inl OverflowError \<Rightarrow>
               (let nan_array = Constant (rows x) (cols x) kNaN
                in (Inr (nan_array, nan_array), s1))
           | Inl OtherException \<Rightarrow> (Inl OtherException, s1)))"

text \<open>\<open>Eigen::VectorXd(0)\<close>, the constants handed to the renderer for the raw form.\<close>

definition GetFormattedString :: "backends \<Rightarrow> string \<Rightarrow> bool \<Rightarrow> agraph \<Rightarrow> string outcome" where
  "GetFormattedString bk format raw s =
     (if raw then
        (string_generation_GetFormattedString bk format (command_array s)
           \<lparr>cols = 1, coeffs = []\<rparr>, s)
      else
        (case update_if_modified bk s of
           (Inl e, s1) \<Rightarrow> (Inl e, s1)
         | (Inr u, s1) \<Rightarrow>
             (string_generation_GetFormattedString bk format
                (simplified_command_array s1) (simplified_constants s1), s1)))"

definition GetConsoleString :: "backends \<Rightarrow> agraph \<Rightarrow> string outcome" where
  "GetConsoleString bk s = GetFormattedString bk ''console'' False s"

definition GetComplexity :: "backends \<Rightarrow> agraph \<Rightarrow> nat outcome" where
  "GetComplexity bk s =
     (case update_if_modified bk s of
        (Inl e, s1) \<Rightarrow> (Inl e, s1)
      | (Inr u, s1) \<Rightarrow> (Inr (length (simplified_command_array s1)), s1))"

subsection \<open>Distance\<close>

text \<open>
  \<open>command_array_ != other\<close> on Eigen arrays is the coefficient-wise comparison: an array of
  booleans of the same shape. \<open>count()\<close> is the number of its true coefficients.
\<close>

definition row_neq :: "command \<Rightarrow> command \<Rightarrow> bool list" where
  "row_neq r1 r2 =
     [op_idx r1 \<noteq> op_idx r2, first_arg r1 \<noteq> first_arg r2, second_arg r1 \<noteq> second_arg r2]"

definition array_neq :: "array_x3i \<Rightarrow> array_x3i \<Rightarrow> bool list list" where
  "array_neq a b = map (\<lambda>(r1, r2). row_neq r1 r2) (zip a b)"

definition count :: "bool list list \<Rightarrow> nat" where
  "count m = sum_list (map (\<lambda>r. length (filter (\<lambda>b. b) r)) m)"

text \<open>
  Eigen requires both operands of a coefficient-wise operation to have the same shape (an
  assertion, and undefined behaviour without it): \<open>None\<close> when the numbers of rows differ.
  The result is converted to \<open>int\<close>; it is at most three times the number of rows.
\<close>

definition Distance :: "agraph \<Rightarrow> agraph \<Rightarrow> nat option" where
  "Distance s other =
     (if length (command_array s) \<noteq> length (GetCommandArray other) then None
      else Some (count (array_neq (command_array s) (GetCommandArray other))))"

subsection \<open>Calls of the public methods\<close>

text \<open>
  A caller drives an \<open>AGraph\<close> through its public methods. \<open>call\<close> names one call with
  its arguments, \<open>exec\<close> gives the state of the object after the call (whether the call
  returned or threw), and \<open>exec_all\<close> runs a sequence of calls.
\<close>

datatype call =
    CallGetCommandArray
  | CallGetCommandArrayModifiable
  | CallStoreThroughReference array_x3i
  | CallSetCommandArray array_x3i
  | CallGetFitness
  | CallSetFitness double
  | CallIsFitnessSet
  | CallSetFitnessStatus bool
  | CallSetGeneticAge int
  | CallGetGeneticAge
  | CallGetUtilizedCommands
  | CallNeedsLocalOptimization
  | CallGetNumberLocalOptimizationParams
  | CallSetLocalOptimizationParams array_xxd
  | CallSetLocalOptimizationParamsV "double list"
  | CallSetLocalOptimizationParamsA array_xxd
  | CallGetLocalOptimizationParams
  | CallEvaluateEquationAt array_xxd
  | CallEvaluateEquationWithXGradientAt array_xxd
  | CallEvaluateEquationWithLocalOptGradientAt array_xxd
  | CallGetConsoleString
  | CallGetFormattedString string bool
  | CallGetComplexity
  | CallDistance agraph
  | CallDumpState
  | CallCopy

fun exec :: "backends \<Rightarrow> call \<Rightarrow> agraph \<Rightarrow> agraph" where
  "exec bk CallGetCommandArray s = s"
| "exec bk CallGetCommandArrayModifiable s = snd (GetCommandArrayModifiable s)"
| "exec bk (CallStoreThroughReference ca) s = store_through_reference ca s"
| "exec bk (CallSetCommandArray ca) s = SetCommandArray ca s"
| "exec bk CallGetFitness s = s"
| "exec bk (CallSetFitness f) s = SetFitness f s"
| "exec bk CallIsFitnessSet s = s"
| "exec bk (CallSetFitnessStatus val) s = SetFitnessStatus val s"
| "exec bk (CallSetGeneticAge age) s = SetGeneticAge age s"
| "exec bk CallGetGeneticAge s = s"
| "exec bk CallGetUtilizedCommands s = s"
| "exec bk CallNeedsLocalOptimization s = snd (NeedsLocalOptimization bk s)"
| "exec bk CallGetNumberLocalOptimizationParams s =
     snd (GetNumberLocalOptimizationParams bk s)"
| "exec bk (CallSetLocalOptimizationParams params) s = SetLocalOptimizationParams params s"
| "exec bk (CallSetLocalOptimizationParamsV params) s = SetLocalOptimizationParamsV params s"
| "exec bk (CallSetLocalOptimizationParamsA params) s = SetLocalOptimizationParamsA params s"
| "exec bk CallGetLocalOptimizationParams s = s"
| "exec bk (CallEvaluateEquationAt x) s = snd (EvaluateEquationAt bk x s)"
| "exec bk (CallEvaluateEquationWithXGradientAt x) s =
     snd (EvaluateEquationWithXGradientAt bk x s)"
| "exec bk (CallEvaluateEquationWithLocalOptGradientAt x) s =
     snd (EvaluateEquationWithLocalOptGradientAt bk x s)"
| "exec bk CallGetConsoleString s = snd (GetConsoleString bk s)"
| "exec bk (CallGetFormattedString format raw) s = snd (GetFormattedString bk format raw s)"
| "exec bk CallGetComplexity s = snd (GetComplexity bk s)"
| "exec bk (CallDistance other) s = s"
| "exec bk CallDumpState s = s"
| "exec bk CallCopy s = s"

fun exec_all :: "backends \<Rightarrow> call list \<Rightarrow> agraph \<Rightarrow> agraph" where
  "exec_all bk [] s = s"
| "exec_all bk (c # cs) s = exec_all bk cs (exec bk c s)"

text \<open>
  The derived accessors: evaluation in its three modes, complexity, rendering of the
  simplified form, the needs-optimization query and the optimization-parameter count.
\<close>

fun is_derived_accessor :: "call \<Rightarrow> bool" where
  "is_derived_accessor CallNeedsLocalOptimization = True"
| "is_derived_accessor CallGetNumberLocalOptimizationParams = True"
| "is_derived_accessor (CallEvaluateEquationAt x) = True"
| "is_derived_accessor (CallEvaluateEquationWithXGradientAt x) = True"
| "is_derived_accessor (CallEvaluateEquationWithLocalOptGradientAt x) = True"
| "is_derived_accessor CallGetConsoleString = True"
| "is_derived_accessor (CallGetFormattedString format raw) = (\<not> raw)"
| "is_derived_accessor CallGetComplexity = True"
| "is_derived_accessor c = False"

text \<open>
  The external writes to the raw program: replacing the command array, and obtaining
  modifiable access to it.
\<close>

fun is_raw_write :: "call \<Rightarrow> bool" where
  "is_raw_write (CallSetCommandArray ca) = True"
| "is_raw_write CallGetCommandArrayModifiable = True"
| "is_raw_write c = False"


fun is_SetFitnessStatus :: "call \<Rightarrow> bool" where
  "is_SetFitnessStatus (CallSetFitnessStatus val) = True"
| "is_SetFitnessStatus c = False"

section \<open>What the specification words say\<close>

text \<open>
  Constant renumbering in the words of the specification: walking the program in order,
  every constant terminal gets the next unused integer, starting from \<open>n\<close>, in both of its
  fields. The loop of the code is compared with it.
\<close>

fun renumber :: "int \<Rightarrow> nat \<Rightarrow> array_x3i \<Rightarrow> array_x3i" where
  "renumber kc n [] = []"
| "renumber kc n (c # cs) =
     (if op_idx c = kc then Command kc (int n) (int n) # renumber kc (Suc n) cs
      else c # renumber kc n cs)"

definition is_constant :: "int \<Rightarrow> command \<Rightarrow> bool" where
  "is_constant kc c = (op_idx c = kc)"

text \<open>
  The structural distance in the words of the specification: the number of rows at which
  two programs differ, a row being different when any field differs. A row that only one
  of the programs has is different (the specification puts a one-row program at distance 1
  from the empty program).
\<close>

definition differing_rows :: "array_x3i \<Rightarrow> array_x3i \<Rightarrow> nat" where
  "differing_rows a b =
     length (filter (\<lambda>(r1, r2). r1 \<noteq> r2) (zip a b))
     + (max (length a) (length b) - min (length a) (length b))"

text \<open>
  The number of coefficients at which two programs differ: the rows whose opcode differs,
  those whose first argument differs and those whose second argument differs, summed.
\<close>

definition differing_fields :: "array_x3i \<Rightarrow> array_x3i \<Rightarrow> nat" where
  "differing_fields a b =
     length (filter (\<lambda>(r1, r2). op_idx r1 \<noteq> op_idx r2) (zip a b))
     + length (filter (\<lambda>(r1, r2). first_arg r1 \<noteq> first_arg r2) (zip a b))
     + length (filter (\<lambda>(r1, r2). second_arg r1 \<noteq> second_arg r2) (zip a b))"

text \<open>
  Modelled from the spec: the evaluation backend is not part of the source at hand. For a
  batch \<open>x\<close> (rows are samples, columns are features) the specification has value evaluation
  produce one output value per sample.
\<close>

definition one_value_per_sample :: "array_xxd \<Rightarrow> array_xxd \<Rightarrow> bool" where
  "one_value_per_sample x r = (rows r = rows x \<and> cols r = 1)"

text \<open>
  Modelled from the spec: the derivative backend is not part of the source at hand. When
  targeting the input variables, the specification has it produce a per-sample Jacobian over
  the feature axis.
\<close>

definition jacobian_over_features :: "array_xxd \<Rightarrow> array_xxd \<Rightarrow> bool" where
  "jacobian_over_features x r = (rows r = rows x \<and> cols r = cols x)"

text \<open>
  Modelled from the spec: the derivative backend is not part of the source at hand. When
  targeting the constants, the specification has it produce a per-sample Jacobian over the
  constant-index axis: one column for each entry of the constants vector.
\<close>

definition jacobian_over_constants :: "array_xxd \<Rightarrow> array_xxd \<Rightarrow> array_xxd \<Rightarrow> bool" where
  "jacobian_over_constants x constants r = (rows r = rows x \<and> cols r = rows constants)"

text \<open>An array of the shape of \<open>x\<close> whose every coefficient is NaN.\<close>

definition nan_filled_like :: "array_xxd \<Rightarrow> array_xxd \<Rightarrow> bool" where
  "nan_filled_like x r =
     (rows r = rows x \<and> cols r = cols x
      \<and> coeffs r = replicate (rows x) (replicate (cols x) NaN))"

section \<open>Example collaborators and individuals\<close>

text \<open>
  Collaborators for the concrete instances below: an evaluation that overflows on a batch
  with two feature columns, underflows on one with three, and otherwise returns zeros of the
  shapes the specification gives; a simplification oracle that is unavailable; a local
  simplifier that returns the program as it is; opcode 1 for constants.
\<close>

definition example_backends :: backends where
  "example_backends =
     \<lparr>kConstant = 1,
      evaluation_backend_Evaluate =
        (\<lambda>stack x constants.
           if cols x = 2 then Inl OverflowError
           else if cols x = 3 then Inl UnderflowError
           else Inr (Constant (rows x) 1 (Finite 0))),
      evaluation_backend_EvaluateWithDerivative =
        (\<lambda>stack x constants wrt_x.
           if cols x = 2 then Inl OverflowError
           else if cols x = 3 then Inl UnderflowError
           else Inr (Constant (rows x) 1 (Finite 0),
                     Constant (rows x) (if wrt_x then cols x else rows constants) (Finite 0))),
      simplification_backend_PythonSimplifyStack = (\<lambda>stack. Inl OtherException),
      simplification_backend_SimplifyStack = (\<lambda>stack. Inr stack),
      simplification_backend_GetUtilizedCommands =
        (\<lambda>stack. Inr (replicate (length stack) True)),
      string_generation_GetFormattedString = (\<lambda>format stack constants. Inr format)\<rparr>"

definition batch_1x1 :: array_xxd where
  "batch_1x1 = \<lparr>cols = 1, coeffs = [[Finite 1]]\<rparr>"

definition batch_1x2 :: array_xxd where
  "batch_1x2 = \<lparr>cols = 2, coeffs = [[Finite 1, Finite 2]]\<rparr>"

definition batch_1x3 :: array_xxd where
  "batch_1x3 = \<lparr>cols = 3, coeffs = [[Finite 1, Finite 2, Finite 3]]\<rparr>"

text \<open>An individual with three constants, and one with two; neither needs optimization.\<close>

definition three_constants :: agraph where
  "three_constants =
     (AGraph False)\<lparr>simplified_constants :=
        \<lparr>cols = 1, coeffs = [[Finite 2], [Finite 3], [Finite 4]]\<rparr>\<rparr>"

definition two_constants :: agraph where
  "two_constants =
     (AGraph False)\<lparr>simplified_constants := \<lparr>cols = 1, coeffs = [[Finite 2], [Finite 3]]\<rparr>\<rparr>"

text \<open>The program \<open>c + x0 * c\<close> with opcodes 0 (variable), 1 (constant), 2 and 4.\<close>

definition example_program :: array_x3i where
  "example_program =
     [Command 1 7 7, Command 0 0 0, Command 1 7 7, Command 4 1 2, Command 2 0 3]"

text \<open>The example program after constant renumbering.\<close>

definition renumbered_example :: array_x3i where
  "renumbered_example =
     [Command 1 0 0, Command 0 0 0, Command 1 1 1, Command 4 1 2, Command 2 0 3]"

text \<open>Two individuals whose one-row raw programs differ in all three fields.\<close>

definition individual_var :: agraph where
  "individual_var = SetCommandArray [Command 0 0 0] (AGraph False)"

definition individual_const :: agraph where
  "individual_const = SetCommandArray [Command 1 1 1] (AGraph False)"

text \<open>
  A stale individual with the local strategy: the example program has just been written.
  And a sequence of calls without a write to the raw program.
\<close>

definition stale_example :: agraph where
  "stale_example = SetCommandArray example_program (AGraph False)"

definition further_calls :: "call list" where
  "further_calls =
     [CallEvaluateEquationAt batch_1x1, CallNeedsLocalOptimization,
      CallSetFitness (Finite 3), CallGetNumberLocalOptimizationParams,
      CallGetUtilizedCommands, CallGetConsoleString]"

text \<open>
  The backend entry point that \<open>updateSimplifiedCommandArray\<close> calls for an individual: the
  external oracle under the thorough strategy, the local simplifier otherwise.
\<close>

definition selected_simplifier :: "backends \<Rightarrow> agraph \<Rightarrow> array_x3i \<Rightarrow> exn + array_x3i" where
  "selected_simplifier bk s =
     (if use_simplification s then simplification_backend_PythonSimplifyStack bk
      else simplification_backend_SimplifyStack bk)"


text \<open>Calls that set a fitness and then write the raw program.\<close>

definition fitness_then_write :: "call list" where
  "fitness_then_write = [CallSetFitness (Finite 5), CallSetCommandArray example_program]"




text \<open>
  A stale individual with the thorough strategy: the example program has just been written.
\<close>

definition thorough_example :: agraph where
  "thorough_example = SetCommandArray example_program (AGraph True)"

text \<open>The call \<open>SetFitnessStatus(false)\<close>: it clears the flag and leaves the stored fitness.\<close>

fun is_SetFitnessStatus_false :: "call \<Rightarrow> bool" where
  "is_SetFitnessStatus_false (CallSetFitnessStatus val) = (\<not> val)"
| "is_SetFitnessStatus_false c = False"

text \<open>
  The calls that can leave the flag set with the sentinel as stored fitness: \<open>SetFitness\<close>
  with the sentinel itself as argument, and \<open>SetFitnessStatus(true)\<close>.
\<close>

fun may_set_with_sentinel :: "call \<Rightarrow> bool" where
  "may_set_with_sentinel (CallSetFitness f) = (f = kFitnessNotSet)"
| "may_set_with_sentinel (CallSetFitnessStatus val) = val"
| "may_set_with_sentinel c = False"

text \<open>Calls that write the raw program and then set a fitness.\<close>

definition write_then_fitness :: "call list" where
  "write_then_fitness =
     [CallSetCommandArray example_program, CallSetFitness (Finite 5), CallSetGeneticAge 2]"

text \<open>Three calls of derived accessors.\<close>

definition derived_calls :: "call list" where
  "derived_calls =
     [CallNeedsLocalOptimization, CallEvaluateEquationAt batch_1x1, CallGetConsoleString]"

section \<open>Constants Vector Manager\<close>

lemma resize_shrink:
  "k \<le> rows (simplified_constants s) \<Longrightarrow>
   resizeConstantsArrayIfNeeded k s =
     s\<lparr>simplified_constants := conservativeResize k (simplified_constants s)\<rparr>"
  by (simp add: resizeConstantsArrayIfNeeded_def)

lemma resize_grow:
  "rows (simplified_constants s) < k \<Longrightarrow>
   resizeConstantsArrayIfNeeded k s =
     s\<lparr>simplified_constants := Constant k 1 (Finite 1), needs_opt := True\<rparr>"
  by (simp add: resizeConstantsArrayIfNeeded_def performDefaultConstantResize_def Let_def)

text \<open>
  Claim C6. Let \<open>k\<close> be the new constant count and \<open>m\<close> the number of rows of the constants
  vector. If \<open>k \<le> m\<close>, \<open>resizeConstantsArrayIfNeeded\<close> keeps exactly the first \<open>k\<close> rows with
  their values and leaves the needs-optimization flag as it was. Otherwise the vector becomes
  \<open>k\<close> entries (one column), every one of them \<open>1.0\<close>, and the flag becomes true (here
  \<open>k > m \<ge> 0\<close>, so \<open>k > 0\<close>). Nothing else of the object changes. In general the default resize
  sets the flag exactly when \<open>k > 0\<close>.
\<close>

theorem C6_resizeConstantsArrayIfNeeded:
  "(k \<le> rows (simplified_constants s) \<longrightarrow>
      coeffs (simplified_constants (resizeConstantsArrayIfNeeded k s))
        = take k (coeffs (simplified_constants s))
    \<and> rows (simplified_constants (resizeConstantsArrayIfNeeded k s)) = k
    \<and> cols (simplified_constants (resizeConstantsArrayIfNeeded k s))
        = cols (simplified_constants s)
    \<and> needs_opt (resizeConstantsArrayIfNeeded k s) = needs_opt s)
   \<and> (rows (simplified_constants s) < k \<longrightarrow>
      simplified_constants (resizeConstantsArrayIfNeeded k s)
        = \<lparr>cols = 1, coeffs = replicate k [Finite 1]\<rparr>
    \<and> rows (simplified_constants (resizeConstantsArrayIfNeeded k s)) = k
    \<and> needs_opt (resizeConstantsArrayIfNeeded k s) = True)
   \<and> needs_opt (performDefaultConstantResize k s) = (0 < k \<or> needs_opt s)
   \<and> simplified_constants (performDefaultConstantResize k s)
        = \<lparr>cols = 1, coeffs = replicate k [Finite 1]\<rparr>
   \<and> resizeConstantsArrayIfNeeded k s
        = s\<lparr>simplified_constants := simplified_constants (resizeConstantsArrayIfNeeded k s),
            needs_opt := needs_opt (resizeConstantsArrayIfNeeded k s)\<rparr>"
proof -
  have shrink: "k \<le> rows (simplified_constants s) \<Longrightarrow>
      coeffs (simplified_constants (resizeConstantsArrayIfNeeded k s))
        = take k (coeffs (simplified_constants s))
    \<and> rows (simplified_constants (resizeConstantsArrayIfNeeded k s)) = k
    \<and> cols (simplified_constants (resizeConstantsArrayIfNeeded k s))
        = cols (simplified_constants s)
    \<and> needs_opt (resizeConstantsArrayIfNeeded k s) = needs_opt s"
    by (simp add: resize_shrink conservativeResize_def rows_def)
  have grow: "rows (simplified_constants s) < k \<Longrightarrow>
      simplified_constants (resizeConstantsArrayIfNeeded k s)
        = \<lparr>cols = 1, coeffs = replicate k [Finite 1]\<rparr>
    \<and> rows (simplified_constants (resizeConstantsArrayIfNeeded k s)) = k
    \<and> needs_opt (resizeConstantsArrayIfNeeded k s) = True"
    by (simp add: resize_grow Constant_def rows_def)
  have dflt: "needs_opt (performDefaultConstantResize k s) = (0 < k \<or> needs_opt s)
    \<and> simplified_constants (performDefaultConstantResize k s)
        = \<lparr>cols = 1, coeffs = replicate k [Finite 1]\<rparr>"
    by (simp add: performDefaultConstantResize_def Let_def Constant_def)
  have frame: "resizeConstantsArrayIfNeeded k s
        = s\<lparr>simplified_constants := simplified_constants (resizeConstantsArrayIfNeeded k s),
            needs_opt := needs_opt (resizeConstantsArrayIfNeeded k s)\<rparr>"
  proof (cases "k \<le> rows (simplified_constants s)")
    case True
    then show ?thesis by (simp add: resize_shrink)
  next
    case False
    then show ?thesis by (simp add: resize_grow)
  qed
  from shrink grow dflt frame show ?thesis by blast
qed

text \<open>
  The two instances of the specification: three constants and a new count of 2 give the
  first two prior values and leave the flag false; two constants and a new count of 5 give
  five entries \<open>1.0\<close> and set the flag.
\<close>

theorem C6_resizeConstantsArrayIfNeeded_witness:
  "2 \<le> rows (simplified_constants three_constants)
   \<and> coeffs (simplified_constants (resizeConstantsArrayIfNeeded 2 three_constants))
       = [[Finite 2], [Finite 3]]
   \<and> needs_opt three_constants = False
   \<and> needs_opt (resizeConstantsArrayIfNeeded 2 three_constants) = False
   \<and> rows (simplified_constants two_constants) < 5
   \<and> simplified_constants (resizeConstantsArrayIfNeeded 5 two_constants)
       = \<lparr>cols = 1,
          coeffs = [[Finite 1], [Finite 1], [Finite 1], [Finite 1], [Finite 1]]\<rparr>
   \<and> needs_opt (resizeConstantsArrayIfNeeded 5 two_constants) = True"
proof -
  have h3: "2 \<le> rows (simplified_constants three_constants)"
    by (simp add: three_constants_def rows_def)
  have h2: "rows (simplified_constants two_constants) < 5"
    by (simp add: two_constants_def rows_def)
  have c3: "coeffs (simplified_constants three_constants)
              = [[Finite 2], [Finite 3], [Finite 4]]"
    and n3: "needs_opt three_constants = False"
    by (simp_all add: three_constants_def AGraph_def)
  have r5: "replicate 5 [Finite 1]
              = [[Finite 1], [Finite 1], [Finite 1], [Finite 1], [Finite 1]]"
    by (simp add: numeral_eq_Suc)
  from h3 h2 C6_resizeConstantsArrayIfNeeded [of 2 three_constants]
    C6_resizeConstantsArrayIfNeeded [of 5 two_constants]
  show ?thesis
    by (simp add: c3 n3 r5)
qed

section \<open>Constant Renumberer\<close>

text \<open>
  The loop of \<open>countAndUpdateConstants\<close> computes \<open>renumber\<close>: started at row \<open>i\<close> with
  counter \<open>n\<close>, it leaves the rows before \<open>i\<close>, renumbers the rest from \<open>n\<close> and returns
  \<open>n\<close> plus the number of constant rows from \<open>i\<close> on.
\<close>

lemma is_constant_fun: "is_constant kc = (\<lambda>c. op_idx c = kc)"
  by (simp add: fun_eq_iff is_constant_def)

lemma renumber_length: "length (renumber kc n a) = length a"
  by (induction a arbitrary: n) auto

lemma loop_renumber:
  "i \<le> length a \<Longrightarrow>
   countAndUpdateConstants_loop kc a i n
     = (take i a @ renumber kc n (drop i a),
        n + length (filter (is_constant kc) (drop i a)))"
proof (induction kc a i n rule: countAndUpdateConstants_loop.induct)
  case (1 kc a i n)
  show ?case
  proof (cases "i < length a")
    case False
    with "1.prems" have "i = length a" by simp
    then show ?thesis
      by (subst countAndUpdateConstants_loop.simps) simp
  next
    case True
    note lt = True
    have dropi: "drop i a = a ! i # drop (Suc i) a"
      using lt by (simp add: Cons_nth_drop_Suc)
    show ?thesis
    proof (cases "op_idx (a ! i) = kc")
      case True
      let ?a' = "a[i := Command kc (int n) (int n)]"
      have ih: "countAndUpdateConstants_loop kc ?a' (Suc i) (Suc n)
             = (take (Suc i) ?a' @ renumber kc (Suc n) (drop (Suc i) ?a'),
                Suc n + length (filter (is_constant kc) (drop (Suc i) ?a')))"
        using "1.IH"(1) [OF lt True] lt by simp
      have t: "take (Suc i) ?a' = take i a @ [Command kc (int n) (int n)]"
        using lt by (simp add: take_Suc_conv_app_nth)
      have d: "drop (Suc i) ?a' = drop (Suc i) a"
        by simp
      have unfold: "countAndUpdateConstants_loop kc a i n
             = countAndUpdateConstants_loop kc ?a' (Suc i) (Suc n)"
        using lt True by (subst countAndUpdateConstants_loop.simps) simp
      show ?thesis
        using True by (simp add: unfold ih t d dropi is_constant_fun)
    next
      case False
      have ih: "countAndUpdateConstants_loop kc a (Suc i) n
             = (take (Suc i) a @ renumber kc n (drop (Suc i) a),
                n + length (filter (is_constant kc) (drop (Suc i) a)))"
        using "1.IH"(2) [OF lt False] lt by simp
      have unfold: "countAndUpdateConstants_loop kc a i n
             = countAndUpdateConstants_loop kc a (Suc i) n"
        using lt False by (subst countAndUpdateConstants_loop.simps) simp
      show ?thesis
        using lt False
        by (simp add: unfold ih dropi take_Suc_conv_app_nth is_constant_fun)
    qed
  qed
qed

lemma upt_shift: "[n ..< n + Suc m] = n # [Suc n ..< Suc n + m]"
  by (simp add: upt_conv_Cons)

lemma renumber_filter:
  "filter (is_constant kc) (renumber kc n a)
     = map (\<lambda>j. Command kc (int j) (int j)) [n ..< n + length (filter (is_constant kc) a)]"
proof (induction a arbitrary: n)
  case Nil
  then show ?case by simp
next
  case (Cons c a)
  show ?case
  proof (cases "op_idx c = kc")
    case True
    have "filter (is_constant kc) (renumber kc n (c # a))
            = Command kc (int n) (int n) # filter (is_constant kc) (renumber kc (Suc n) a)"
      using True by (simp add: is_constant_def)
    also have "\<dots> = Command kc (int n) (int n)
            # map (\<lambda>j. Command kc (int j) (int j))
                [Suc n ..< Suc n + length (filter (is_constant kc) a)]"
      by (simp only: Cons.IH)
    also have "\<dots> = map (\<lambda>j. Command kc (int j) (int j))
                [n ..< n + Suc (length (filter (is_constant kc) a))]"
      by (simp only: upt_shift list.map)
    also have "Suc (length (filter (is_constant kc) a))
            = length (filter (is_constant kc) (c # a))"
      using True by (simp add: is_constant_def)
    finally show ?thesis .
  next
    case False
    then show ?thesis
      using Cons.IH [of n] by (simp add: is_constant_def)
  qed
qed

lemma renumber_nth:
  "i < length a \<Longrightarrow>
   renumber kc n a ! i =
     (if op_idx (a ! i) = kc
      then Command kc (int (n + length (filter (is_constant kc) (take i a))))
                      (int (n + length (filter (is_constant kc) (take i a))))
      else a ! i)"
proof (induction a arbitrary: n i)
  case Nil
  then show ?case by simp
next
  case (Cons c a)
  show ?case
  proof (cases i)
    case 0
    then show ?thesis by simp
  next
    case (Suc j)
    with Cons.prems have j: "j < length a" by simp
    show ?thesis
    proof (cases "op_idx c = kc")
      case True
      then show ?thesis
        using Suc Cons.IH [OF j, of "Suc n"] by (simp add: is_constant_fun)
    next
      case False
      then show ?thesis
        using Suc Cons.IH [OF j, of n] by (simp add: is_constant_fun)
    qed
  qed
qed

text \<open>
  Claim C7. \<open>countAndUpdateConstants\<close> returns the number \<open>k\<close> of constant-terminal rows of
  the simplified program. It walks the program in row order: a row that is no constant
  terminal stays as it is, and the constant terminal at row \<open>i\<close> gets, in both argument
  fields, the number of constant terminals before row \<open>i\<close>, whatever stood there. Afterwards
  the constant terminals, read in row order, carry the indices \<open>0, 1, ..., k - 1\<close> in both
  fields: no gap and no repeat. No other member of the object changes.
\<close>

theorem C7_countAndUpdateConstants:
  assumes "countAndUpdateConstants bk s = (k, s')"
  shows "k = length (filter (is_constant (kConstant bk)) (simplified_command_array s))
    \<and> simplified_command_array s' = renumber (kConstant bk) 0 (simplified_command_array s)
    \<and> length (simplified_command_array s') = length (simplified_command_array s)
    \<and> (\<forall>i < length (simplified_command_array s).
          simplified_command_array s' ! i =
            (if op_idx (simplified_command_array s ! i) = kConstant bk
             then Command (kConstant bk)
                    (int (length (filter (is_constant (kConstant bk))
                                    (take i (simplified_command_array s)))))
                    (int (length (filter (is_constant (kConstant bk))
                                    (take i (simplified_command_array s)))))
             else simplified_command_array s ! i))
    \<and> filter (is_constant (kConstant bk)) (simplified_command_array s')
        = map (\<lambda>j. Command (kConstant bk) (int j) (int j)) [0 ..< k]
    \<and> map first_arg (filter (is_constant (kConstant bk)) (simplified_command_array s'))
        = map int [0 ..< k]
    \<and> map second_arg (filter (is_constant (kConstant bk)) (simplified_command_array s'))
        = map int [0 ..< k]
    \<and> s' = s\<lparr>simplified_command_array := simplified_command_array s'\<rparr>"
proof -
  let ?kc = "kConstant bk"
  let ?a = "simplified_command_array s"
  have loop: "countAndUpdateConstants_loop ?kc ?a 0 0
                = (renumber ?kc 0 ?a, length (filter (is_constant ?kc) ?a))"
    using loop_renumber [of 0 ?a ?kc 0] by simp
  from assms have k: "k = length (filter (is_constant ?kc) ?a)"
    and s': "s' = s\<lparr>simplified_command_array := renumber ?kc 0 ?a\<rparr>"
    by (simp_all add: countAndUpdateConstants_def loop)
  have a': "simplified_command_array s' = renumber ?kc 0 ?a"
    by (simp add: s')
  have nth: "\<forall>i < length ?a.
          simplified_command_array s' ! i =
            (if op_idx (?a ! i) = ?kc
             then Command ?kc (int (length (filter (is_constant ?kc) (take i ?a))))
                              (int (length (filter (is_constant ?kc) (take i ?a))))
             else ?a ! i)"
    by (simp add: a' renumber_nth)
  have flt: "filter (is_constant ?kc) (simplified_command_array s')
               = map (\<lambda>j. Command ?kc (int j) (int j)) [0 ..< k]"
    by (simp add: a' k renumber_filter)
  have f1: "map first_arg (filter (is_constant ?kc) (simplified_command_array s'))
              = map int [0 ..< k]"
    by (simp add: flt comp_def)
  have f2: "map second_arg (filter (is_constant ?kc) (simplified_command_array s'))
              = map int [0 ..< k]"
    by (simp add: flt comp_def)
  have frame: "s' = s\<lparr>simplified_command_array := simplified_command_array s'\<rparr>"
    by (simp add: s')
  from k a' nth flt f1 f2 frame show ?thesis
    by (simp add: renumber_length)
qed

lemma example_loop:
  "countAndUpdateConstants_loop 1 example_program 0 0 = (renumbered_example, 2)"
  by (simp add: countAndUpdateConstants_loop.simps example_program_def renumbered_example_def)

text \<open>
  The example program has constant terminals at rows 0 and 2, both with index 7: they
  become 0 and 1, and the count is 2.
\<close>

theorem C7_countAndUpdateConstants_witness:
  "countAndUpdateConstants example_backends
       ((AGraph False)\<lparr>simplified_command_array := example_program\<rparr>)
     = (2, (AGraph False)\<lparr>simplified_command_array := renumbered_example\<rparr>)
   \<and> length (filter (is_constant 1) example_program) = 2
   \<and> renumbered_example = renumber 1 0 example_program
   \<and> filter (is_constant 1) renumbered_example = [Command 1 0 0, Command 1 1 1]
   \<and> map first_arg (filter (is_constant 1) renumbered_example) = [0, 1]
   \<and> map second_arg (filter (is_constant 1) renumbered_example) = [0, 1]"
proof -
  have run: "countAndUpdateConstants example_backends
       ((AGraph False)\<lparr>simplified_command_array := example_program\<rparr>)
     = (2, (AGraph False)\<lparr>simplified_command_array := renumbered_example\<rparr>)"
    by (simp add: countAndUpdateConstants_def example_backends_def example_loop)
  have kc: "kConstant example_backends = 1"
    by (simp add: example_backends_def)
  have upt2: "[0 ..< 2] = [0, Suc 0]"
    by (simp add: numeral_2_eq_2)
  from C7_countAndUpdateConstants [OF run] show ?thesis
    by (simp add: run kc upt2)
qed

section \<open>Structural distance\<close>

lemma count_array_neq_zip:
  "count (map (\<lambda>(r1, r2). row_neq r1 r2) zs)
     = length (filter (\<lambda>(r1, r2). op_idx r1 \<noteq> op_idx r2) zs)
     + length (filter (\<lambda>(r1, r2). first_arg r1 \<noteq> first_arg r2) zs)
     + length (filter (\<lambda>(r1, r2). second_arg r1 \<noteq> second_arg r2) zs)"
proof (induction zs)
  case Nil
  then show ?case by (simp add: count_def)
next
  case (Cons z zs)
  obtain r1 r2 where z: "z = (r1, r2)" by (cases z)
  from Cons show ?case
    by (simp add: count_def z row_neq_def)
qed

lemma count_array_neq: "count (array_neq a b) = differing_fields a b"
  by (simp add: array_neq_def differing_fields_def count_array_neq_zip)

lemma filter_zip_swap:
  "length (filter (\<lambda>(r1, r2). f r1 \<noteq> f r2) (zip b a))
     = length (filter (\<lambda>(r1, r2). f r1 \<noteq> f r2) (zip a b))"
proof (induction a arbitrary: b)
  case Nil
  then show ?case by simp
next
  case (Cons x xs)
  then show ?case by (cases b) auto
qed

lemma differing_fields_sym: "differing_fields a b = differing_fields b a"
  by (simp only: differing_fields_def filter_zip_swap [of _ b a])

lemma differing_fields_same: "differing_fields a a = 0"
  by (simp add: differing_fields_def zip_same_conv_map filter_map comp_def)

lemma fields_rows_zip:
  "length (filter (\<lambda>(r1, r2). r1 \<noteq> r2) zs)
     \<le> length (filter (\<lambda>(r1, r2). op_idx r1 \<noteq> op_idx r2) zs)
       + length (filter (\<lambda>(r1, r2). first_arg r1 \<noteq> first_arg r2) zs)
       + length (filter (\<lambda>(r1, r2). second_arg r1 \<noteq> second_arg r2) zs)
   \<and> length (filter (\<lambda>(r1, r2). op_idx r1 \<noteq> op_idx r2) zs)
       + length (filter (\<lambda>(r1, r2). first_arg r1 \<noteq> first_arg r2) zs)
       + length (filter (\<lambda>(r1, r2). second_arg r1 \<noteq> second_arg r2) zs)
     \<le> 3 * length (filter (\<lambda>(r1, r2). r1 \<noteq> r2) zs)"
proof (induction zs)
  case Nil
  then show ?case by simp
next
  case (Cons z zs)
  obtain r1 r2 where z: "z = (r1, r2)" by (cases z)
  have eq: "r1 = r2 \<longleftrightarrow>
      op_idx r1 = op_idx r2 \<and> first_arg r1 = first_arg r2 \<and> second_arg r1 = second_arg r2"
    by (auto simp: command.expand)
  from Cons show ?case
    by (auto simp: z eq)
qed

lemma fields_bounds:
  "length a = length b \<Longrightarrow>
   differing_rows a b \<le> differing_fields a b \<and> differing_fields a b \<le> 3 * differing_rows a b"
  using fields_rows_zip [of "zip a b"]
  by (simp add: differing_rows_def differing_fields_def)

lemma differing_fields_zero:
  "length a = length b \<Longrightarrow> differing_fields a b = 0 \<longleftrightarrow> a = b"
proof (induction a b rule: list_induct2)
  case Nil
  then show ?case by (simp add: differing_fields_def)
next
  case (Cons x xs y ys)
  have eq: "x = y \<longleftrightarrow>
      op_idx x = op_idx y \<and> first_arg x = first_arg y \<and> second_arg x = second_arg y"
    by (auto simp: command.expand)
  from Cons show ?case
    by (auto simp: differing_fields_def eq)
qed

text \<open>
  Claim C8, as amended. For two individuals whose raw programs have the same number of
  rows, \<open>Distance\<close> is the number of fields (coefficients) at which the raw programs differ:
  a row adds one for each of its three fields that differs. It is at least the number of
  differing rows and at most three times that number. It reads the raw programs only, it
  is symmetric, it is 0 from an individual to itself, and it is 0 exactly when the raw
  programs are identical.
\<close>

theorem C8_Distance_counts_fields:
  assumes "length (command_array A) = length (command_array B)"
  shows "Distance A B = Some (differing_fields (command_array A) (command_array B))
    \<and> differing_rows (command_array A) (command_array B)
        \<le> differing_fields (command_array A) (command_array B)
    \<and> differing_fields (command_array A) (command_array B)
        \<le> 3 * differing_rows (command_array A) (command_array B)
    \<and> Distance A B = Distance B A
    \<and> Distance A A = Some 0
    \<and> (Distance A B = Some 0 \<longleftrightarrow> command_array A = command_array B)"
proof -
  have d: "Distance A B = Some (differing_fields (command_array A) (command_array B))"
    using assms by (simp add: Distance_def GetCommandArray_def count_array_neq)
  have sym: "Distance A B = Distance B A"
    using assms differing_fields_sym [of "command_array A" "command_array B"]
    by (simp add: Distance_def GetCommandArray_def count_array_neq)
  have self: "Distance A A = Some 0"
    by (simp add: Distance_def GetCommandArray_def count_array_neq differing_fields_same)
  have zero: "Distance A B = Some 0 \<longleftrightarrow> command_array A = command_array B"
    using differing_fields_zero [OF assms] by (simp add: d)
  from d fields_bounds [OF assms] sym self zero show ?thesis
    by blast
qed

text \<open>
  The two one-row programs \<open>(0, 0, 0)\<close> and \<open>(1, 1, 1)\<close>: the distance is 3, both ways, and
  the distance of each individual to itself is 0.
\<close>

theorem C8_Distance_counts_fields_witness:
  "length (command_array individual_var) = length (command_array individual_const)
   \<and> Distance individual_var individual_const = Some 3
   \<and> Distance individual_const individual_var = Some 3
   \<and> Distance individual_var individual_var = Some 0
   \<and> command_array individual_var \<noteq> command_array individual_const"
proof -
  have len: "length (command_array individual_var) = length (command_array individual_const)"
    by (simp add: individual_var_def individual_const_def SetCommandArray_def
        notify_agraph_modification_def)
  have f: "differing_fields (command_array individual_var) (command_array individual_const) = 3"
    by (simp add: individual_var_def individual_const_def SetCommandArray_def
        notify_agraph_modification_def differing_fields_def)
  from C8_Distance_counts_fields [OF len] show ?thesis
    by (auto simp: len f)
qed

text \<open>
  Claim C8 as it is stated fails: the two one-row programs differ at one row, and their
  distance is 3, not 1.
\<close>

theorem C8_Distance_rows_counterexample:
  "differing_rows (command_array individual_var) (command_array individual_const) = 1
   \<and> Distance individual_var individual_const = Some 3"
  by (simp add: individual_var_def individual_const_def SetCommandArray_def
      notify_agraph_modification_def differing_rows_def Distance_def GetCommandArray_def
      array_neq_def count_def row_neq_def)

section \<open>The update pipeline and the accessors\<close>

text \<open>
  \<open>updateConstantsArray\<close> writes the simplified program, the constants and the
  needs-optimization flag, and nothing else.
\<close>

lemma resize_frame:
  "\<exists>c n. resizeConstantsArrayIfNeeded k s = s\<lparr>simplified_constants := c, needs_opt := n\<rparr>"
proof (cases "k \<le> rows (simplified_constants s)")
  case True
  have "resizeConstantsArrayIfNeeded k s
          = s\<lparr>simplified_constants := conservativeResize k (simplified_constants s),
              needs_opt := needs_opt s\<rparr>"
    using True by (simp add: resize_shrink)
  then show ?thesis by blast
next
  case False
  then have "resizeConstantsArrayIfNeeded k s
          = s\<lparr>simplified_constants := Constant k 1 (Finite 1), needs_opt := True\<rparr>"
    by (simp add: resize_grow)
  then show ?thesis by blast
qed

lemma updateConstantsArray_frame:
  "\<exists>a c n. updateConstantsArray bk s
     = s\<lparr>simplified_command_array := a, simplified_constants := c, needs_opt := n\<rparr>"
proof -
  obtain k s1 where r: "countAndUpdateConstants bk s = (k, s1)"
    by (cases "countAndUpdateConstants bk s")
  then have s1: "s1 = s\<lparr>simplified_command_array := simplified_command_array s1\<rparr>"
    by (auto simp: countAndUpdateConstants_def split: prod.splits)
  obtain c n where "resizeConstantsArrayIfNeeded k s1
      = s1\<lparr>simplified_constants := c, needs_opt := n\<rparr>"
    using resize_frame by blast
  then have "updateConstantsArray bk s
      = s\<lparr>simplified_command_array := simplified_command_array s1,
          simplified_constants := c, needs_opt := n\<rparr>"
    using s1 by (simp add: updateConstantsArray_def r)
  then show ?thesis by blast
qed

lemma updateSimplifiedCommandArray_cases:
  "(\<exists>e. updateSimplifiedCommandArray bk s = (Inl e, s))
   \<or> (\<exists>a. updateSimplifiedCommandArray bk s = (Inr (), s\<lparr>simplified_command_array := a\<rparr>))"
  by (auto simp: updateSimplifiedCommandArray_def split: sum.splits)

text \<open>
  \<open>update\<close> either throws and leaves the object as it was, or returns with the modified flag
  cleared and one more completed run; in both cases the raw program, the fitness, the
  fitness-set flag, the age and the strategy are as before.
\<close>

lemma update_cases:
  "(\<exists>e. update bk s = (Inl e, s))
   \<or> (\<exists>a c n. update bk s
         = (Inr (), s\<lparr>simplified_command_array := a, simplified_constants := c,
                      needs_opt := n, modified := False,
                      updates_completed := Suc (updates_completed s)\<rparr>))"
proof -
  from updateSimplifiedCommandArray_cases [of bk s] show ?thesis
  proof
    assume "\<exists>e. updateSimplifiedCommandArray bk s = (Inl e, s)"
    then show ?thesis by (auto simp: update_def)
  next
    assume "\<exists>a. updateSimplifiedCommandArray bk s
                 = (Inr (), s\<lparr>simplified_command_array := a\<rparr>)"
    then obtain a where a: "updateSimplifiedCommandArray bk s
                 = (Inr (), s\<lparr>simplified_command_array := a\<rparr>)" by blast
    obtain a' c n where "updateConstantsArray bk (s\<lparr>simplified_command_array := a\<rparr>)
       = s\<lparr>simplified_command_array := a\<rparr>
           \<lparr>simplified_command_array := a', simplified_constants := c, needs_opt := n\<rparr>"
      using updateConstantsArray_frame by blast
    then have "update bk s
         = (Inr (), s\<lparr>simplified_command_array := a', simplified_constants := c,
                      needs_opt := n, modified := False,
                      updates_completed := Suc (updates_completed s)\<rparr>)"
      by (simp add: update_def a)
    then show ?thesis by blast
  qed
qed

lemma update_failure: "fst (update bk s) = Inl e \<Longrightarrow> update bk s = (Inl e, s)"
  using update_cases [of bk s] by auto

lemma update_success:
  "fst (update bk s) = Inr u \<Longrightarrow>
   \<not> modified (snd (update bk s))
   \<and> updates_completed (snd (update bk s)) = Suc (updates_completed s)"
  using update_cases [of bk s] by auto

lemma update_frame:
  "command_array (snd (update bk s)) = command_array s
   \<and> fitness (snd (update bk s)) = fitness s
   \<and> fit_set (snd (update bk s)) = fit_set s
   \<and> genetic_age (snd (update bk s)) = genetic_age s
   \<and> use_simplification (snd (update bk s)) = use_simplification s"
  using update_cases [of bk s] by auto

lemma update_if_modified_fresh: "\<not> modified s \<Longrightarrow> update_if_modified bk s = (Inr (), s)"
  by (simp add: update_if_modified_def)

lemma update_if_modified_stale: "modified s \<Longrightarrow> update_if_modified bk s = update bk s"
  by (simp add: update_if_modified_def)

lemma update_if_modified_frame:
  "command_array (snd (update_if_modified bk s)) = command_array s
   \<and> fitness (snd (update_if_modified bk s)) = fitness s
   \<and> fit_set (snd (update_if_modified bk s)) = fit_set s
   \<and> genetic_age (snd (update_if_modified bk s)) = genetic_age s
   \<and> use_simplification (snd (update_if_modified bk s)) = use_simplification s"
  using update_frame [of bk s] by (simp add: update_if_modified_def)

text \<open>
  A derived accessor leaves the object in the state its prologue leaves it in: what follows
  the prologue reads members and calls a backend, and writes nothing.
\<close>

lemma NeedsLocalOptimization_state:
  "snd (NeedsLocalOptimization bk s) = snd (update_if_modified bk s)"
  by (simp add: NeedsLocalOptimization_def split: prod.splits sum.splits)

lemma GetNumberLocalOptimizationParams_state:
  "snd (GetNumberLocalOptimizationParams bk s) = snd (update_if_modified bk s)"
  by (simp add: GetNumberLocalOptimizationParams_def split: prod.splits sum.splits)

lemma EvaluateEquationAt_state:
  "snd (EvaluateEquationAt bk x s) = snd (update_if_modified bk s)"
  by (simp add: EvaluateEquationAt_def split: prod.splits sum.splits exn.splits)

lemma EvaluateEquationWithXGradientAt_state:
  "snd (EvaluateEquationWithXGradientAt bk x s) = snd (update_if_modified bk s)"
  by (simp add: EvaluateEquationWithXGradientAt_def Let_def
      split: prod.splits sum.splits exn.splits)

lemma EvaluateEquationWithLocalOptGradientAt_state:
  "snd (EvaluateEquationWithLocalOptGradientAt bk x s) = snd (update_if_modified bk s)"
  by (simp add: EvaluateEquationWithLocalOptGradientAt_def Let_def
      split: prod.splits sum.splits exn.splits)

lemma GetFormattedString_state:
  "snd (GetFormattedString bk format False s) = snd (update_if_modified bk s)"
  by (simp add: GetFormattedString_def split: prod.splits sum.splits)

lemma GetFormattedString_raw_state: "snd (GetFormattedString bk format True s) = s"
  by (simp add: GetFormattedString_def)

lemma GetComplexity_state:
  "snd (GetComplexity bk s) = snd (update_if_modified bk s)"
  by (simp add: GetComplexity_def split: prod.splits sum.splits)

lemmas derived_states =
  NeedsLocalOptimization_state GetNumberLocalOptimizationParams_state
  EvaluateEquationAt_state EvaluateEquationWithXGradientAt_state
  EvaluateEquationWithLocalOptGradientAt_state GetFormattedString_state
  GetComplexity_state

lemma exec_derived:
  "is_derived_accessor c \<Longrightarrow> exec bk c s = snd (update_if_modified bk s)"
  by (cases c) (simp_all add: derived_states GetConsoleString_def)

lemma exec_fresh:
  assumes "\<not> modified s" and "\<not> is_raw_write c"
  shows "\<not> modified (exec bk c s) \<and> updates_completed (exec bk c s) = updates_completed s"
proof (cases "is_derived_accessor c")
  case True
  then show ?thesis
    using assms(1) by (simp add: exec_derived update_if_modified_fresh)
next
  case False
  then show ?thesis
    using assms
    by (cases c)
      (simp_all add: store_through_reference_def SetFitness_def SetFitnessStatus_def
        SetGeneticAge_def SetLocalOptimizationParams_def SetLocalOptimizationParamsV_def
        SetLocalOptimizationParamsA_def GetFormattedString_raw_state)
qed

lemma exec_all_fresh:
  "\<not> modified s \<Longrightarrow> \<forall>d \<in> set cs. \<not> is_raw_write d \<Longrightarrow>
   \<not> modified (exec_all bk cs s)
   \<and> updates_completed (exec_all bk cs s) = updates_completed s"
proof (induction cs arbitrary: s)
  case Nil
  then show ?case by simp
next
  case (Cons c cs)
  from Cons.prems have c: "\<not> is_raw_write c" and cs: "\<forall>d \<in> set cs. \<not> is_raw_write d"
    by simp_all
  from exec_fresh [OF Cons.prems(1) c, of bk]
  have m: "\<not> modified (exec bk c s)"
    and u: "updates_completed (exec bk c s) = updates_completed s" by simp_all
  from Cons.IH [OF m cs] u show ?case by simp
qed

lemma exec_all_derived_fresh:
  "\<not> modified s \<Longrightarrow> \<forall>d \<in> set cs. is_derived_accessor d \<Longrightarrow> exec_all bk cs s = s"
  by (induction cs) (simp_all add: exec_derived update_if_modified_fresh)

lemma raw_write_not_eager:
  "is_raw_write w \<Longrightarrow>
   updates_completed (exec bk w s) = updates_completed s
   \<and> simplified_command_array (exec bk w s) = simplified_command_array s
   \<and> simplified_constants (exec bk w s) = simplified_constants s
   \<and> needs_opt (exec bk w s) = needs_opt s
   \<and> modified (exec bk w s)"
  by (cases w)
    (simp_all add: SetCommandArray_def GetCommandArrayModifiable_def
      notify_agraph_modification_def Let_def)

text \<open>
  When the selected simplifier returns \<open>p\<close> for the raw program, \<open>update\<close> runs to its end and
  caches \<open>p\<close> with its constants renumbered.
\<close>

lemma resize_keeps_program:
  "simplified_command_array (resizeConstantsArrayIfNeeded k s) = simplified_command_array s"
  using resize_frame [of k s] by auto

lemma update_reflects:
  assumes "selected_simplifier bk t (command_array t) = Inr p"
  shows "fst (update bk t) = Inr ()
    \<and> simplified_command_array (snd (update bk t)) = renumber (kConstant bk) 0 p"
proof -
  have simp_step: "updateSimplifiedCommandArray bk t
      = (Inr (), t\<lparr>simplified_command_array := p\<rparr>)"
    using assms
    by (simp add: updateSimplifiedCommandArray_def selected_simplifier_def split: if_splits)
  have loop: "countAndUpdateConstants_loop (kConstant bk) p 0 0
      = (renumber (kConstant bk) 0 p, length (filter (is_constant (kConstant bk)) p))"
    using loop_renumber [of 0 p "kConstant bk" 0] by simp
  show ?thesis
    by (simp add: update_def simp_step updateConstantsArray_def countAndUpdateConstants_def
        loop resize_keeps_program)
qed

text \<open>The stale example individual with the thorough strategy, member by member.\<close>

lemma thorough_example_facts:
  "use_simplification thorough_example \<and> modified thorough_example
   \<and> command_array thorough_example = example_program
   \<and> simplified_command_array thorough_example = []"
  by (simp add: thorough_example_def SetCommandArray_def notify_agraph_modification_def
      AGraph_def)

section \<open>Lazy recomputation\<close>

text \<open>
  What a run of \<open>update\<close> leaves, member by member, when the selected simplifier returns the
  program \<open>p\<close> with \<open>k\<close> constant terminals: \<open>p\<close> renumbered; the constants cut to their first
  \<open>k\<close> rows with the needs-optimization flag as it was when there are at least \<open>k\<close> rows, and
  \<open>k\<close> entries \<open>1.0\<close> with the flag set otherwise; the modified flag cleared.
\<close>

lemma update_result:
  assumes "selected_simplifier bk s (command_array s) = Inr p"
  shows "update bk s
     = (Inr (),
        (resizeConstantsArrayIfNeeded (length (filter (is_constant (kConstant bk)) p))
           (s\<lparr>simplified_command_array := renumber (kConstant bk) 0 p\<rparr>))
          \<lparr>modified := False, updates_completed := Suc (updates_completed s)\<rparr>)"
proof -
  have simp_step: "updateSimplifiedCommandArray bk s
      = (Inr (), s\<lparr>simplified_command_array := p\<rparr>)"
    using assms
    by (simp add: updateSimplifiedCommandArray_def selected_simplifier_def split: if_splits)
  have loop: "countAndUpdateConstants_loop (kConstant bk) p 0 0
      = (renumber (kConstant bk) 0 p, length (filter (is_constant (kConstant bk)) p))"
    using loop_renumber [of 0 p "kConstant bk" 0] by simp
  show ?thesis
    by (simp add: update_def simp_step updateConstantsArray_def countAndUpdateConstants_def
        loop)
qed

lemma update_explicit:
  assumes "selected_simplifier bk s (command_array s) = Inr p"
  shows "snd (update bk s)
     = s\<lparr>simplified_command_array := renumber (kConstant bk) 0 p,
         simplified_constants :=
           (if length (filter (is_constant (kConstant bk)) p) \<le> rows (simplified_constants s)
            then (simplified_constants s)
                   \<lparr>coeffs := take (length (filter (is_constant (kConstant bk)) p))
                                (coeffs (simplified_constants s))\<rparr>
            else \<lparr>cols = 1,
                  coeffs = replicate (length (filter (is_constant (kConstant bk)) p))
                             [Finite 1]\<rparr>),
         needs_opt :=
           (if length (filter (is_constant (kConstant bk)) p) \<le> rows (simplified_constants s)
            then needs_opt s else True),
         modified := False,
         updates_completed := Suc (updates_completed s)\<rparr>"
proof (cases "length (filter (is_constant (kConstant bk)) p) \<le> rows (simplified_constants s)")
  case True
  then have "length (filter (is_constant (kConstant bk)) p)
      \<le> rows (simplified_constants (s\<lparr>simplified_command_array := renumber (kConstant bk) 0 p\<rparr>))"
    by simp
  from resize_shrink [OF this] True show ?thesis
    by (simp add: update_result [OF assms] conservativeResize_def)
next
  case False
  then have "rows (simplified_constants
                (s\<lparr>simplified_command_array := renumber (kConstant bk) 0 p\<rparr>))
      < length (filter (is_constant (kConstant bk)) p)"
    by simp
  from resize_grow [OF this] False show ?thesis
    by (simp add: update_result [OF assms] Constant_def)
qed

lemma update_fails:
  "selected_simplifier bk s (command_array s) = Inl e \<Longrightarrow> update bk s = (Inl e, s)"
  by (simp add: update_def updateSimplifiedCommandArray_def selected_simplifier_def
      split: if_splits)

lemma exec_all_stale_failing:
  assumes "modified s" and "selected_simplifier bk s (command_array s) = Inl e"
  shows "\<forall>d \<in> set cs. is_derived_accessor d \<Longrightarrow> exec_all bk cs s = s"
  using assms
  by (induction cs) (simp_all add: exec_derived update_if_modified_stale update_fails)

text \<open>
  Claim C5, as amended. Let the individual be stale (\<open>modified\<close> is set). If the selected
  simplifier returns a program \<open>p\<close> for its raw program, the first derived accessor called
  (evaluation in any mode, complexity, rendering of the simplified form, the
  needs-optimization query or the optimization-parameter count) runs the pipeline once: it
  leaves \<open>p\<close> renumbered as simplified program, the constants reconciled with the number \<open>k\<close>
  of constant terminals of \<open>p\<close> (the first \<open>k\<close> prior rows with the flag as it was, or \<open>k\<close>
  entries \<open>1.0\<close> with the flag set), the object fresh, and one more completed run; through any
  further calls that do not write the raw program the object stays fresh and the number of
  completed runs stays the same, and further derived accessors leave the object exactly as
  it is. If the selected simplifier throws, the accessor throws, the object stays exactly as
  it was, stale, and every further derived accessor runs into the same exception: no run
  completes. Recomputation is never eager: a write to the raw program (\<open>SetCommandArray\<close>,
  \<open>GetCommandArrayModifiable\<close>) marks the object stale and runs nothing, leaving the
  simplified program, the constants and the needs-optimization flag as they were.
\<close>

theorem C5_update_once_per_staleness_period:
  assumes "modified s"
    and "is_derived_accessor c"
    and "\<forall>d \<in> set cs. \<not> is_raw_write d"
  shows "(selected_simplifier bk s (command_array s) = Inr p \<longrightarrow>
        exec bk c s
          = s\<lparr>simplified_command_array := renumber (kConstant bk) 0 p,
              simplified_constants :=
                (if length (filter (is_constant (kConstant bk)) p)
                      \<le> rows (simplified_constants s)
                 then (simplified_constants s)
                        \<lparr>coeffs := take (length (filter (is_constant (kConstant bk)) p))
                                     (coeffs (simplified_constants s))\<rparr>
                 else \<lparr>cols = 1,
                       coeffs = replicate (length (filter (is_constant (kConstant bk)) p))
                                  [Finite 1]\<rparr>),
              needs_opt :=
                (if length (filter (is_constant (kConstant bk)) p)
                      \<le> rows (simplified_constants s)
                 then needs_opt s else True),
              modified := False,
              updates_completed := Suc (updates_completed s)\<rparr>
      \<and> \<not> modified (exec bk c s)
      \<and> updates_completed (exec bk c s) = Suc (updates_completed s)
      \<and> \<not> modified (exec_all bk cs (exec bk c s))
      \<and> updates_completed (exec_all bk cs (exec bk c s)) = Suc (updates_completed s)
      \<and> ((\<forall>d \<in> set cs. is_derived_accessor d) \<longrightarrow>
            exec_all bk cs (exec bk c s) = exec bk c s))
    \<and> (selected_simplifier bk s (command_array s) = Inl e \<longrightarrow>
        update_if_modified bk s = (Inl e, s)
      \<and> exec bk c s = s
      \<and> ((\<forall>d \<in> set cs. is_derived_accessor d) \<longrightarrow> exec_all bk cs (exec bk c s) = s))
    \<and> (is_raw_write w \<longrightarrow>
          modified (exec bk w s')
          \<and> updates_completed (exec bk w s') = updates_completed s'
          \<and> simplified_command_array (exec bk w s') = simplified_command_array s'
          \<and> simplified_constants (exec bk w s') = simplified_constants s'
          \<and> needs_opt (exec bk w s') = needs_opt s')"
proof -
  have first: "exec bk c s = snd (update bk s)"
    using assms(1,2) by (simp add: exec_derived update_if_modified_stale)
  have success: "selected_simplifier bk s (command_array s) = Inr p \<longrightarrow>
        exec bk c s
          = s\<lparr>simplified_command_array := renumber (kConstant bk) 0 p,
              simplified_constants :=
                (if length (filter (is_constant (kConstant bk)) p)
                      \<le> rows (simplified_constants s)
                 then (simplified_constants s)
                        \<lparr>coeffs := take (length (filter (is_constant (kConstant bk)) p))
                                     (coeffs (simplified_constants s))\<rparr>
                 else \<lparr>cols = 1,
                       coeffs = replicate (length (filter (is_constant (kConstant bk)) p))
                                  [Finite 1]\<rparr>),
              needs_opt :=
                (if length (filter (is_constant (kConstant bk)) p)
                      \<le> rows (simplified_constants s)
                 then needs_opt s else True),
              modified := False,
              updates_completed := Suc (updates_completed s)\<rparr>
      \<and> \<not> modified (exec bk c s)
      \<and> updates_completed (exec bk c s) = Suc (updates_completed s)
      \<and> \<not> modified (exec_all bk cs (exec bk c s))
      \<and> updates_completed (exec_all bk cs (exec bk c s)) = Suc (updates_completed s)
      \<and> ((\<forall>d \<in> set cs. is_derived_accessor d) \<longrightarrow>
            exec_all bk cs (exec bk c s) = exec bk c s)"
  proof
    assume sel: "selected_simplifier bk s (command_array s) = Inr p"
    have state: "exec bk c s
          = s\<lparr>simplified_command_array := renumber (kConstant bk) 0 p,
              simplified_constants :=
                (if length (filter (is_constant (kConstant bk)) p)
                      \<le> rows (simplified_constants s)
                 then (simplified_constants s)
                        \<lparr>coeffs := take (length (filter (is_constant (kConstant bk)) p))
                                     (coeffs (simplified_constants s))\<rparr>
                 else \<lparr>cols = 1,
                       coeffs = replicate (length (filter (is_constant (kConstant bk)) p))
                                  [Finite 1]\<rparr>),
              needs_opt :=
                (if length (filter (is_constant (kConstant bk)) p)
                      \<le> rows (simplified_constants s)
                 then needs_opt s else True),
              modified := False,
              updates_completed := Suc (updates_completed s)\<rparr>"
      using update_explicit [OF sel] by (simp only: first)
    from update_reflects [OF sel] have ok: "fst (update bk s) = Inr ()"
      by simp
    from update_success [OF ok]
    have fresh: "\<not> modified (exec bk c s)"
      and runs: "updates_completed (exec bk c s) = Suc (updates_completed s)"
      by (simp_all add: first)
    from exec_all_fresh [OF fresh assms(3), of bk]
    have later: "\<not> modified (exec_all bk cs (exec bk c s))"
      and later_runs:
        "updates_completed (exec_all bk cs (exec bk c s)) = Suc (updates_completed s)"
      by (simp_all add: runs)
    have same: "(\<forall>d \<in> set cs. is_derived_accessor d) \<longrightarrow>
            exec_all bk cs (exec bk c s) = exec bk c s"
      using exec_all_derived_fresh [OF fresh] by blast
    from state fresh runs later later_runs same
    show "exec bk c s
          = s\<lparr>simplified_command_array := renumber (kConstant bk) 0 p,
              simplified_constants :=
                (if length (filter (is_constant (kConstant bk)) p)
                      \<le> rows (simplified_constants s)
                 then (simplified_constants s)
                        \<lparr>coeffs := take (length (filter (is_constant (kConstant bk)) p))
                                     (coeffs (simplified_constants s))\<rparr>
                 else \<lparr>cols = 1,
                       coeffs = replicate (length (filter (is_constant (kConstant bk)) p))
                                  [Finite 1]\<rparr>),
              needs_opt :=
                (if length (filter (is_constant (kConstant bk)) p)
                      \<le> rows (simplified_constants s)
                 then needs_opt s else True),
              modified := False,
              updates_completed := Suc (updates_completed s)\<rparr>
      \<and> \<not> modified (exec bk c s)
      \<and> updates_completed (exec bk c s) = Suc (updates_completed s)
      \<and> \<not> modified (exec_all bk cs (exec bk c s))
      \<and> updates_completed (exec_all bk cs (exec bk c s)) = Suc (updates_completed s)
      \<and> ((\<forall>d \<in> set cs. is_derived_accessor d) \<longrightarrow>
            exec_all bk cs (exec bk c s) = exec bk c s)"
      by (intro conjI)
  qed
  have failure: "selected_simplifier bk s (command_array s) = Inl e \<longrightarrow>
        update_if_modified bk s = (Inl e, s)
      \<and> exec bk c s = s
      \<and> ((\<forall>d \<in> set cs. is_derived_accessor d) \<longrightarrow> exec_all bk cs (exec bk c s) = s)"
  proof
    assume sel: "selected_simplifier bk s (command_array s) = Inl e"
    have u: "update_if_modified bk s = (Inl e, s)"
      using assms(1) by (simp add: update_if_modified_stale update_fails [OF sel])
    have x: "exec bk c s = s"
      by (simp add: first update_fails [OF sel])
    have xs: "(\<forall>d \<in> set cs. is_derived_accessor d) \<longrightarrow> exec_all bk cs (exec bk c s) = s"
      using exec_all_stale_failing [OF assms(1) sel, of cs] by (simp add: x)
    from u x xs
    show "update_if_modified bk s = (Inl e, s)
      \<and> exec bk c s = s
      \<and> ((\<forall>d \<in> set cs. is_derived_accessor d) \<longrightarrow> exec_all bk cs (exec bk c s) = s)"
      by (intro conjI)
  qed
  have lazy: "is_raw_write w \<longrightarrow>
          modified (exec bk w s')
          \<and> updates_completed (exec bk w s') = updates_completed s'
          \<and> simplified_command_array (exec bk w s') = simplified_command_array s'
          \<and> simplified_constants (exec bk w s') = simplified_constants s'
          \<and> needs_opt (exec bk w s') = needs_opt s'"
    using raw_write_not_eager [of w bk s'] by blast
  from success failure lazy show ?thesis
    by (intro conjI)
qed

text \<open>
  The stale example individual with the local strategy: \<open>GetComplexity\<close> runs the pipeline,
  which leaves the renumbered program and two constants \<open>1.0\<close> to optimize, and six further
  calls, four of them derived accessors, run it no more. The stale individual with the
  thorough strategy and the unavailable oracle: \<open>GetComplexity\<close> and three further derived
  accessors leave it as it was.
\<close>

theorem C5_update_once_per_staleness_period_witness:
  "modified stale_example
   \<and> is_derived_accessor CallGetComplexity
   \<and> list_all (\<lambda>d. \<not> is_raw_write d) further_calls
   \<and> selected_simplifier example_backends stale_example (command_array stale_example)
       = Inr example_program
   \<and> simplified_command_array (exec example_backends CallGetComplexity stale_example)
       = renumbered_example
   \<and> simplified_constants (exec example_backends CallGetComplexity stale_example)
       = \<lparr>cols = 1, coeffs = [[Finite 1], [Finite 1]]\<rparr>
   \<and> needs_opt (exec example_backends CallGetComplexity stale_example)
   \<and> updates_completed stale_example = 0
   \<and> updates_completed (exec example_backends CallGetComplexity stale_example) = 1
   \<and> \<not> modified (exec example_backends CallGetComplexity stale_example)
   \<and> updates_completed
        (exec_all example_backends (CallGetComplexity # further_calls) stale_example) = 1
   \<and> \<not> modified
        (exec_all example_backends (CallGetComplexity # further_calls) stale_example)
   \<and> modified thorough_example
   \<and> list_all (\<lambda>d. \<not> is_raw_write d) derived_calls
   \<and> list_all is_derived_accessor derived_calls
   \<and> selected_simplifier example_backends thorough_example (command_array thorough_example)
       = Inl OtherException
   \<and> exec_all example_backends (CallGetComplexity # derived_calls) thorough_example
       = thorough_example"
proof -
  have stale: "modified stale_example"
    and zero: "updates_completed stale_example = 0"
    and norows: "rows (simplified_constants stale_example) = 0"
    by (simp_all add: stale_example_def SetCommandArray_def notify_agraph_modification_def
        AGraph_def rows_def)
  have acc: "is_derived_accessor CallGetComplexity"
    by simp
  have sel: "selected_simplifier example_backends stale_example (command_array stale_example)
       = Inr example_program"
    by (simp add: selected_simplifier_def stale_example_def SetCommandArray_def
        notify_agraph_modification_def AGraph_def example_backends_def)
  have calls: "\<forall>d \<in> set further_calls. \<not> is_raw_write d"
    by (simp add: further_calls_def)
  have kc: "kConstant example_backends = 1"
    by (simp add: example_backends_def)
  have ren: "renumber 1 0 example_program = renumbered_example"
    by (simp add: example_program_def renumbered_example_def)
  have k: "length (filter (is_constant 1) example_program) = 2"
    by (simp add: example_program_def is_constant_def)
  have two: "replicate 2 [Finite 1] = [[Finite 1], [Finite 1]]"
    by (simp add: numeral_2_eq_2)
  note run = C5_update_once_per_staleness_period [OF stale acc calls,
      where bk = example_backends and p = example_program, THEN conjunct1, rule_format, OF sel]
  from run [THEN conjunct1]
  have state: "exec example_backends CallGetComplexity stale_example
      = stale_example\<lparr>simplified_command_array := renumbered_example,
          simplified_constants := \<lparr>cols = 1, coeffs = [[Finite 1], [Finite 1]]\<rparr>,
          needs_opt := True, modified := False, updates_completed := Suc 0\<rparr>"
    by (simp add: kc ren k norows two zero)
  from run
  have later: "\<not> modified
        (exec_all example_backends further_calls
           (exec example_backends CallGetComplexity stale_example))"
    and later_suc: "updates_completed
        (exec_all example_backends further_calls
           (exec example_backends CallGetComplexity stale_example))
      = Suc (updates_completed stale_example)"
    by blast+
  from later_suc
  have later_runs: "updates_completed
        (exec_all example_backends further_calls
           (exec example_backends CallGetComplexity stale_example)) = 1"
    by (simp only: zero One_nat_def)
  have tstale: "modified thorough_example"
    using thorough_example_facts by simp
  have dcalls: "\<forall>d \<in> set derived_calls. \<not> is_raw_write d"
    and dacc: "\<forall>d \<in> set derived_calls. is_derived_accessor d"
    by (simp_all add: derived_calls_def)
  have tsel: "selected_simplifier example_backends thorough_example
        (command_array thorough_example) = Inl OtherException"
    using thorough_example_facts by (simp add: selected_simplifier_def example_backends_def)
  note thrown = C5_update_once_per_staleness_period [OF tstale acc dcalls,
      where bk = example_backends and e = OtherException,
      THEN conjunct2, THEN conjunct1, rule_format, OF tsel]
  from thrown dacc
  have same: "exec_all example_backends derived_calls
        (exec example_backends CallGetComplexity thorough_example) = thorough_example"
    by blast
  have l1: "list_all (\<lambda>d. \<not> is_raw_write d) further_calls"
    and l2: "list_all (\<lambda>d. \<not> is_raw_write d) derived_calls"
    and l3: "list_all is_derived_accessor derived_calls"
    using calls dcalls dacc by (simp_all only: list_all_iff)
  have fields: "simplified_command_array (exec example_backends CallGetComplexity stale_example)
       = renumbered_example"
    "simplified_constants (exec example_backends CallGetComplexity stale_example)
       = \<lparr>cols = 1, coeffs = [[Finite 1], [Finite 1]]\<rparr>"
    "needs_opt (exec example_backends CallGetComplexity stale_example)"
    "updates_completed (exec example_backends CallGetComplexity stale_example) = 1"
    "\<not> modified (exec example_backends CallGetComplexity stale_example)"
    by (simp_all add: state del: exec.simps)
  show ?thesis
    using stale acc l1 sel zero later later_runs tstale l2 l3 tsel same fields
    by (simp del: exec.simps)
qed

text \<open>
  Claim C5 as it is stated fails. The individual with the thorough strategy is stale and
  the oracle is unavailable: the first derived accessor, \<open>GetComplexity\<close>, throws, and the
  individual is still stale afterwards, with no run of the pipeline completed.
\<close>

theorem C5_stays_stale_counterexample:
  "modified thorough_example
   \<and> is_derived_accessor CallGetComplexity
   \<and> fst (GetComplexity example_backends thorough_example) = Inl OtherException
   \<and> modified (exec example_backends CallGetComplexity thorough_example)
   \<and> updates_completed (exec example_backends CallGetComplexity thorough_example) = 0"
  by (simp add: thorough_example_facts GetComplexity_def update_if_modified_def update_def
      updateSimplifiedCommandArray_def example_backends_def thorough_example_def
      SetCommandArray_def notify_agraph_modification_def AGraph_def)

section \<open>Utilized commands\<close>

text \<open>
  Claim C10. \<open>GetUtilizedCommands\<close> hands the raw command array to the liveness analysis of
  the simplification backend and returns its mask (or lets its exception pass): the result
  is the same for any two objects with the same raw command array, whatever their simplified
  program, constants, fitness and flags. The method is \<open>const\<close>: the call leaves the object
  as it is, so a stale object stays stale, no run of \<open>update\<close> is added, and the fitness, the
  flags and the cached derived state are untouched.
\<close>

theorem C10_GetUtilizedCommands_raw_and_pure:
  "GetUtilizedCommands bk s
     = simplification_backend_GetUtilizedCommands bk (command_array s)
   \<and> (command_array s' = command_array s \<longrightarrow>
        GetUtilizedCommands bk s' = GetUtilizedCommands bk s)
   \<and> exec bk CallGetUtilizedCommands s = s
   \<and> modified (exec bk CallGetUtilizedCommands s) = modified s
   \<and> updates_completed (exec bk CallGetUtilizedCommands s) = updates_completed s
   \<and> simplified_command_array (exec bk CallGetUtilizedCommands s) = simplified_command_array s
   \<and> simplified_constants (exec bk CallGetUtilizedCommands s) = simplified_constants s
   \<and> needs_opt (exec bk CallGetUtilizedCommands s) = needs_opt s
   \<and> fitness (exec bk CallGetUtilizedCommands s) = fitness s
   \<and> fit_set (exec bk CallGetUtilizedCommands s) = fit_set s"
  by (simp add: GetUtilizedCommands_def)

text \<open>
  The stale example individual has five raw rows and, not yet updated, no simplified row:
  the mask has five entries, and the object is still stale after the call. An object with
  the same raw program and another simplified program gets the same mask.
\<close>

theorem C10_GetUtilizedCommands_raw_and_pure_witness:
  "command_array (stale_example\<lparr>simplified_command_array := [Command 0 0 0]\<rparr>)
     = command_array stale_example
   \<and> GetUtilizedCommands example_backends
        (stale_example\<lparr>simplified_command_array := [Command 0 0 0]\<rparr>)
     = GetUtilizedCommands example_backends stale_example
   \<and> GetUtilizedCommands example_backends stale_example
     = Inr [True, True, True, True, True]
   \<and> simplified_command_array stale_example = []
   \<and> modified (exec example_backends CallGetUtilizedCommands stale_example)
   \<and> updates_completed (exec example_backends CallGetUtilizedCommands stale_example) = 0"
proof -
  have same: "command_array (stale_example\<lparr>simplified_command_array := [Command 0 0 0]\<rparr>)
     = command_array stale_example"
    by simp
  have raw: "command_array stale_example = example_program"
    and simplified: "simplified_command_array stale_example = []"
    and stale: "modified stale_example"
    and zero: "updates_completed stale_example = 0"
    by (simp_all add: stale_example_def SetCommandArray_def notify_agraph_modification_def
        AGraph_def)
  have mask: "simplification_backend_GetUtilizedCommands example_backends example_program
     = Inr [True, True, True, True, True]"
    by (simp add: example_backends_def example_program_def numeral_eq_Suc)
  from C10_GetUtilizedCommands_raw_and_pure
    [of example_backends stale_example
        "stale_example\<lparr>simplified_command_array := [Command 0 0 0]\<rparr>"]
  show ?thesis
    using same by (simp add: raw simplified stale zero mask)
qed

section \<open>Fitness and the unset sentinel\<close>

text \<open>
  Two invariants of the calls. A cleared flag goes with the sentinel: every call but
  \<open>SetFitnessStatus(false)\<close> keeps this. A set flag goes with a fitness that is not the
  sentinel: every call but \<open>SetFitness\<close> of the sentinel and \<open>SetFitnessStatus(true)\<close> keeps
  this.
\<close>

lemma exec_unset_consistent:
  assumes "\<not> is_SetFitnessStatus_false c"
    and "\<not> fit_set s \<longrightarrow> fitness s = kFitnessNotSet"
  shows "\<not> fit_set (exec bk c s) \<longrightarrow> fitness (exec bk c s) = kFitnessNotSet"
proof (cases "is_derived_accessor c")
  case True
  then show ?thesis
    using assms(2) update_if_modified_frame [of bk s] by (simp add: exec_derived)
next
  case False
  then show ?thesis
    using assms
    by (cases c)
      (simp_all add: GetCommandArrayModifiable_def notify_agraph_modification_def
        store_through_reference_def SetCommandArray_def SetFitness_def SetFitnessStatus_def
        SetGeneticAge_def SetLocalOptimizationParams_def SetLocalOptimizationParamsV_def
        SetLocalOptimizationParamsA_def GetFormattedString_raw_state Let_def)
qed

lemma exec_all_unset_consistent:
  "\<forall>c \<in> set cs. \<not> is_SetFitnessStatus_false c \<Longrightarrow>
   \<not> fit_set s \<longrightarrow> fitness s = kFitnessNotSet \<Longrightarrow>
   \<not> fit_set (exec_all bk cs s) \<longrightarrow> fitness (exec_all bk cs s) = kFitnessNotSet"
proof (induction cs arbitrary: s)
  case Nil
  then show ?case by simp
next
  case (Cons c cs)
  from Cons.prems have c: "\<not> is_SetFitnessStatus_false c"
    and cs: "\<forall>d \<in> set cs. \<not> is_SetFitnessStatus_false d" by simp_all
  from Cons.IH [OF cs exec_unset_consistent [OF c Cons.prems(2), of bk]]
  show ?case by simp
qed

lemma exec_set_consistent:
  assumes "\<not> may_set_with_sentinel c"
    and "fit_set s \<longrightarrow> fitness s \<noteq> kFitnessNotSet"
  shows "fit_set (exec bk c s) \<longrightarrow> fitness (exec bk c s) \<noteq> kFitnessNotSet"
proof (cases "is_derived_accessor c")
  case True
  then show ?thesis
    using assms(2) update_if_modified_frame [of bk s] by (simp add: exec_derived)
next
  case False
  then show ?thesis
    using assms
    by (cases c)
      (simp_all add: GetCommandArrayModifiable_def notify_agraph_modification_def
        store_through_reference_def SetCommandArray_def SetFitness_def SetFitnessStatus_def
        SetGeneticAge_def SetLocalOptimizationParams_def SetLocalOptimizationParamsV_def
        SetLocalOptimizationParamsA_def GetFormattedString_raw_state Let_def)
qed

lemma exec_all_set_consistent:
  "\<forall>c \<in> set cs. \<not> may_set_with_sentinel c \<Longrightarrow>
   fit_set s \<longrightarrow> fitness s \<noteq> kFitnessNotSet \<Longrightarrow>
   fit_set (exec_all bk cs s) \<longrightarrow> fitness (exec_all bk cs s) \<noteq> kFitnessNotSet"
proof (induction cs arbitrary: s)
  case Nil
  then show ?case by simp
next
  case (Cons c cs)
  from Cons.prems have c: "\<not> may_set_with_sentinel c"
    and cs: "\<forall>d \<in> set cs. \<not> may_set_with_sentinel d" by simp_all
  from Cons.IH [OF cs exec_set_consistent [OF c Cons.prems(2), of bk]]
  show ?case by simp
qed

lemma neither_breaking_call:
  "\<not> is_SetFitnessStatus c \<Longrightarrow> c \<noteq> CallSetFitness kFitnessNotSet \<Longrightarrow>
   \<not> is_SetFitnessStatus_false c \<and> \<not> may_set_with_sentinel c"
  by (cases c) auto

text \<open>
  Claim C9, as amended. The unset sentinel is the ordinary \<open>double\<close> value \<open>1e9\<close>. A newly
  constructed individual has the sentinel as fitness and the flag cleared, and so has an
  individual directly after a notification of a raw-program write; \<open>SetFitness(f)\<close> stores
  \<open>f\<close>, whatever it is, and sets the flag. For the state reached from a new individual by a
  sequence of calls, or from any state in which the respective relation holds:
  if no call is \<open>SetFitnessStatus(false)\<close>, then \<open>IsFitnessSet\<close> false implies that
  \<open>GetFitness\<close> returns the sentinel;
  if no call is \<open>SetFitness\<close> of the sentinel or \<open>SetFitnessStatus(true)\<close>, then \<open>GetFitness\<close>
  returning the sentinel implies that \<open>IsFitnessSet\<close> is false;
  so if no call is \<open>SetFitnessStatus\<close> or \<open>SetFitness\<close> of the sentinel, \<open>GetFitness\<close> returns
  the sentinel if and only if \<open>IsFitnessSet\<close> returns false.
\<close>

theorem C9_sentinel_iff_unset:
  "((\<forall>c \<in> set cs. \<not> is_SetFitnessStatus_false c) \<longrightarrow>
      (\<not> IsFitnessSet (exec_all bk cs (AGraph u)) \<longrightarrow>
         GetFitness (exec_all bk cs (AGraph u)) = kFitnessNotSet)
      \<and> ((\<not> IsFitnessSet s0 \<longrightarrow> GetFitness s0 = kFitnessNotSet) \<longrightarrow>
           (\<not> IsFitnessSet (exec_all bk cs s0) \<longrightarrow>
              GetFitness (exec_all bk cs s0) = kFitnessNotSet)))
   \<and> ((\<forall>c \<in> set cs. \<not> may_set_with_sentinel c) \<longrightarrow>
      (GetFitness (exec_all bk cs (AGraph u)) = kFitnessNotSet \<longrightarrow>
         \<not> IsFitnessSet (exec_all bk cs (AGraph u)))
      \<and> ((GetFitness s0 = kFitnessNotSet \<longrightarrow> \<not> IsFitnessSet s0) \<longrightarrow>
           (GetFitness (exec_all bk cs s0) = kFitnessNotSet \<longrightarrow>
              \<not> IsFitnessSet (exec_all bk cs s0))))
   \<and> ((\<forall>c \<in> set cs. \<not> is_SetFitnessStatus c \<and> c \<noteq> CallSetFitness kFitnessNotSet) \<longrightarrow>
      (GetFitness (exec_all bk cs (AGraph u)) = kFitnessNotSet
         \<longleftrightarrow> \<not> IsFitnessSet (exec_all bk cs (AGraph u)))
      \<and> ((GetFitness s0 = kFitnessNotSet \<longleftrightarrow> \<not> IsFitnessSet s0) \<longrightarrow>
           (GetFitness (exec_all bk cs s0) = kFitnessNotSet
              \<longleftrightarrow> \<not> IsFitnessSet (exec_all bk cs s0))))
   \<and> \<not> IsFitnessSet (AGraph u) \<and> GetFitness (AGraph u) = kFitnessNotSet
   \<and> \<not> IsFitnessSet (notify_agraph_modification s)
   \<and> GetFitness (notify_agraph_modification s) = kFitnessNotSet
   \<and> IsFitnessSet (SetFitness f s) \<and> GetFitness (SetFitness f s) = f
   \<and> kFitnessNotSet = Finite 1000000000"
proof -
  have new: "\<not> fit_set (AGraph u)" "fitness (AGraph u) = kFitnessNotSet"
    by (simp_all add: AGraph_def)
  have a: "(\<forall>c \<in> set cs. \<not> is_SetFitnessStatus_false c) \<longrightarrow>
      (\<not> IsFitnessSet (exec_all bk cs (AGraph u)) \<longrightarrow>
         GetFitness (exec_all bk cs (AGraph u)) = kFitnessNotSet)
      \<and> ((\<not> IsFitnessSet s0 \<longrightarrow> GetFitness s0 = kFitnessNotSet) \<longrightarrow>
           (\<not> IsFitnessSet (exec_all bk cs s0) \<longrightarrow>
              GetFitness (exec_all bk cs s0) = kFitnessNotSet))"
    using exec_all_unset_consistent [of cs "AGraph u" bk]
      exec_all_unset_consistent [of cs s0 bk] new
    by (simp add: IsFitnessSet_def GetFitness_def)
  have b: "(\<forall>c \<in> set cs. \<not> may_set_with_sentinel c) \<longrightarrow>
      (GetFitness (exec_all bk cs (AGraph u)) = kFitnessNotSet \<longrightarrow>
         \<not> IsFitnessSet (exec_all bk cs (AGraph u)))
      \<and> ((GetFitness s0 = kFitnessNotSet \<longrightarrow> \<not> IsFitnessSet s0) \<longrightarrow>
           (GetFitness (exec_all bk cs s0) = kFitnessNotSet \<longrightarrow>
              \<not> IsFitnessSet (exec_all bk cs s0)))"
    using exec_all_set_consistent [of cs "AGraph u" bk]
      exec_all_set_consistent [of cs s0 bk] new
    by (auto simp: IsFitnessSet_def GetFitness_def)
  have ab: "(\<forall>c \<in> set cs. \<not> is_SetFitnessStatus c \<and> c \<noteq> CallSetFitness kFitnessNotSet) \<longrightarrow>
      (\<forall>c \<in> set cs. \<not> is_SetFitnessStatus_false c)
      \<and> (\<forall>c \<in> set cs. \<not> may_set_with_sentinel c)"
    using neither_breaking_call by blast
  have iff: "(\<forall>c \<in> set cs. \<not> is_SetFitnessStatus c \<and> c \<noteq> CallSetFitness kFitnessNotSet) \<longrightarrow>
      (GetFitness (exec_all bk cs (AGraph u)) = kFitnessNotSet
         \<longleftrightarrow> \<not> IsFitnessSet (exec_all bk cs (AGraph u)))
      \<and> ((GetFitness s0 = kFitnessNotSet \<longleftrightarrow> \<not> IsFitnessSet s0) \<longrightarrow>
           (GetFitness (exec_all bk cs s0) = kFitnessNotSet
              \<longleftrightarrow> \<not> IsFitnessSet (exec_all bk cs s0)))"
    using a b ab by blast
  have rest: "\<not> IsFitnessSet (AGraph u) \<and> GetFitness (AGraph u) = kFitnessNotSet
    \<and> \<not> IsFitnessSet (notify_agraph_modification s)
    \<and> GetFitness (notify_agraph_modification s) = kFitnessNotSet
    \<and> IsFitnessSet (SetFitness f s) \<and> GetFitness (SetFitness f s) = f
    \<and> kFitnessNotSet = Finite 1000000000"
    by (simp add: IsFitnessSet_def GetFitness_def AGraph_def notify_agraph_modification_def
        SetFitness_def kFitnessNotSet_def)
  from a b iff rest show ?thesis by blast
qed

text \<open>
  A fitness of 5 is set and the raw program is written afterwards: the flag is cleared and
  the fitness is the sentinel. The raw program is written and a fitness of 5 is set
  afterwards: the flag is set and the fitness is not the sentinel.
\<close>

theorem C9_sentinel_iff_unset_witness:
  "list_all (\<lambda>c. \<not> is_SetFitnessStatus c \<and> c \<noteq> CallSetFitness kFitnessNotSet)
     fitness_then_write
   \<and> list_all (\<lambda>c. \<not> is_SetFitnessStatus_false c) fitness_then_write
   \<and> \<not> IsFitnessSet (exec_all example_backends fitness_then_write (AGraph False))
   \<and> GetFitness (exec_all example_backends fitness_then_write (AGraph False))
       = Finite 1000000000
   \<and> list_all (\<lambda>c. \<not> is_SetFitnessStatus c \<and> c \<noteq> CallSetFitness kFitnessNotSet)
        write_then_fitness
   \<and> list_all (\<lambda>c. \<not> may_set_with_sentinel c) write_then_fitness
   \<and> IsFitnessSet (exec_all example_backends write_then_fitness (AGraph False))
   \<and> GetFitness (exec_all example_backends write_then_fitness (AGraph False))
       \<noteq> kFitnessNotSet"
proof -
  have c1: "\<forall>c \<in> set fitness_then_write.
      \<not> is_SetFitnessStatus c \<and> c \<noteq> CallSetFitness kFitnessNotSet"
    and c1a: "\<forall>c \<in> set fitness_then_write. \<not> is_SetFitnessStatus_false c"
    by (simp_all add: fitness_then_write_def kFitnessNotSet_def)
  have c2: "\<forall>c \<in> set write_then_fitness.
      \<not> is_SetFitnessStatus c \<and> c \<noteq> CallSetFitness kFitnessNotSet"
    and c2b: "\<forall>c \<in> set write_then_fitness. \<not> may_set_with_sentinel c"
    by (simp_all add: write_then_fitness_def kFitnessNotSet_def)
  have unset: "\<not> IsFitnessSet (exec_all example_backends fitness_then_write (AGraph False))"
    by (simp add: fitness_then_write_def IsFitnessSet_def SetCommandArray_def
        notify_agraph_modification_def)
  have set: "IsFitnessSet (exec_all example_backends write_then_fitness (AGraph False))"
    by (simp add: write_then_fitness_def IsFitnessSet_def SetFitness_def SetGeneticAge_def)
  have i1: "GetFitness (exec_all example_backends fitness_then_write (AGraph False))
              = kFitnessNotSet
            \<longleftrightarrow> \<not> IsFitnessSet (exec_all example_backends fitness_then_write (AGraph False))"
    using C9_sentinel_iff_unset [of fitness_then_write example_backends False "AGraph False",
        THEN conjunct2, THEN conjunct2, THEN conjunct1] c1
    by blast
  have i2: "GetFitness (exec_all example_backends write_then_fitness (AGraph False))
              = kFitnessNotSet
            \<longleftrightarrow> \<not> IsFitnessSet (exec_all example_backends write_then_fitness (AGraph False))"
    using C9_sentinel_iff_unset [of write_then_fitness example_backends False "AGraph False",
        THEN conjunct2, THEN conjunct2, THEN conjunct1] c2
    by blast
  have v1: "GetFitness (exec_all example_backends fitness_then_write (AGraph False))
              = Finite 1000000000"
    using i1 unset by (simp add: kFitnessNotSet_def)
  have v2: "GetFitness (exec_all example_backends write_then_fitness (AGraph False))
              \<noteq> kFitnessNotSet"
    using i2 set by simp
  have l1: "list_all (\<lambda>c. \<not> is_SetFitnessStatus c \<and> c \<noteq> CallSetFitness kFitnessNotSet)
     fitness_then_write"
    and l1a: "list_all (\<lambda>c. \<not> is_SetFitnessStatus_false c) fitness_then_write"
    and l2: "list_all (\<lambda>c. \<not> is_SetFitnessStatus c \<and> c \<noteq> CallSetFitness kFitnessNotSet)
     write_then_fitness"
    and l2b: "list_all (\<lambda>c. \<not> may_set_with_sentinel c) write_then_fitness"
    using c1 c1a c2 c2b by (simp_all only: list_all_iff)
  from l1 l1a unset v1 l2 l2b set v2 show ?thesis
    by (intro conjI)
qed

text \<open>
  Claim C9 as it is stated fails in both directions. \<open>SetFitness(1e9)\<close> on a new individual
  leaves a set fitness that is the sentinel. \<open>SetFitnessStatus(false)\<close> after \<open>SetFitness(5)\<close>
  leaves the flag cleared with a fitness that is not the sentinel.
\<close>

theorem C9_sentinel_collides_counterexample:
  "IsFitnessSet (SetFitness (Finite 1000000000) (AGraph False))
   \<and> GetFitness (SetFitness (Finite 1000000000) (AGraph False)) = kFitnessNotSet
   \<and> \<not> IsFitnessSet (SetFitnessStatus False (SetFitness (Finite 5) (AGraph False)))
   \<and> GetFitness (SetFitnessStatus False (SetFitness (Finite 5) (AGraph False))) = Finite 5
   \<and> Finite 5 \<noteq> kFitnessNotSet"
  by (simp add: IsFitnessSet_def GetFitness_def SetFitness_def SetFitnessStatus_def
      kFitnessNotSet_def)

section \<open>Writes to the raw program\<close>









section \<open>Failure of the simplification oracle\<close>

lemma updateConstantsArray_ignores_local:
  "updateConstantsArray (bk\<lparr>simplification_backend_SimplifyStack := f\<rparr>) s
     = updateConstantsArray bk s"
  by (simp add: updateConstantsArray_def countAndUpdateConstants_def)

lemma thorough_ignores_local:
  "use_simplification s \<Longrightarrow>
   update (bk\<lparr>simplification_backend_SimplifyStack := f\<rparr>) s = update bk s"
  by (simp add: update_def updateSimplifiedCommandArray_def
      updateConstantsArray_ignores_local split: sum.splits)

lemma oracle_failure_update:
  "use_simplification s \<Longrightarrow>
   simplification_backend_PythonSimplifyStack bk (command_array s) = Inl e \<Longrightarrow>
   update bk s = (Inl e, s)"
  by (simp add: update_def updateSimplifiedCommandArray_def)

text \<open>
  Claim C3, as amended. For an individual with the thorough strategy \<open>update\<close> never calls
  the local simplifier: replacing the local simplifier by any other function changes nothing.
  When the oracle throws, \<open>update\<close> throws the same exception and leaves the object exactly
  as it was; on a stale object every derived accessor then throws that exception as well and
  leaves the object as it was, stale. There is no fallback.
\<close>

theorem C3_oracle_failure_propagates:
  assumes "use_simplification s"
  shows "update (bk\<lparr>simplification_backend_SimplifyStack := f\<rparr>) s = update bk s
    \<and> (simplification_backend_PythonSimplifyStack bk (command_array s) = Inl e \<longrightarrow>
          update bk s = (Inl e, s)
        \<and> (modified s \<longrightarrow>
              NeedsLocalOptimization bk s = (Inl e, s)
            \<and> GetNumberLocalOptimizationParams bk s = (Inl e, s)
            \<and> EvaluateEquationAt bk x s = (Inl e, s)
            \<and> EvaluateEquationWithXGradientAt bk x s = (Inl e, s)
            \<and> EvaluateEquationWithLocalOptGradientAt bk x s = (Inl e, s)
            \<and> GetFormattedString bk format False s = (Inl e, s)
            \<and> GetConsoleString bk s = (Inl e, s)
            \<and> GetComplexity bk s = (Inl e, s)))"
proof -
  have local: "update (bk\<lparr>simplification_backend_SimplifyStack := f\<rparr>) s = update bk s"
    using assms by (rule thorough_ignores_local)
  have fail: "simplification_backend_PythonSimplifyStack bk (command_array s) = Inl e \<longrightarrow>
          update bk s = (Inl e, s)
        \<and> (modified s \<longrightarrow>
              NeedsLocalOptimization bk s = (Inl e, s)
            \<and> GetNumberLocalOptimizationParams bk s = (Inl e, s)
            \<and> EvaluateEquationAt bk x s = (Inl e, s)
            \<and> EvaluateEquationWithXGradientAt bk x s = (Inl e, s)
            \<and> EvaluateEquationWithLocalOptGradientAt bk x s = (Inl e, s)
            \<and> GetFormattedString bk format False s = (Inl e, s)
            \<and> GetConsoleString bk s = (Inl e, s)
            \<and> GetComplexity bk s = (Inl e, s))"
  proof
    assume "simplification_backend_PythonSimplifyStack bk (command_array s) = Inl e"
    from oracle_failure_update [OF assms this]
    have u: "update bk s = (Inl e, s)" .
    then have "modified s \<longrightarrow> update_if_modified bk s = (Inl e, s)"
      by (simp add: update_if_modified_def)
    with u show "update bk s = (Inl e, s)
        \<and> (modified s \<longrightarrow>
              NeedsLocalOptimization bk s = (Inl e, s)
            \<and> GetNumberLocalOptimizationParams bk s = (Inl e, s)
            \<and> EvaluateEquationAt bk x s = (Inl e, s)
            \<and> EvaluateEquationWithXGradientAt bk x s = (Inl e, s)
            \<and> EvaluateEquationWithLocalOptGradientAt bk x s = (Inl e, s)
            \<and> GetFormattedString bk format False s = (Inl e, s)
            \<and> GetConsoleString bk s = (Inl e, s)
            \<and> GetComplexity bk s = (Inl e, s))"
      by (simp add: NeedsLocalOptimization_def GetNumberLocalOptimizationParams_def
          EvaluateEquationAt_def EvaluateEquationWithXGradientAt_def
          EvaluateEquationWithLocalOptGradientAt_def GetFormattedString_def
          GetConsoleString_def GetComplexity_def)
  qed
  from local fail show ?thesis by blast
qed

text \<open>
  The stale individual with the thorough strategy and the unavailable oracle: \<open>update\<close> and
  \<open>GetComplexity\<close> throw the oracle's exception and leave the individual as it was.
\<close>

theorem C3_oracle_failure_propagates_witness:
  "use_simplification thorough_example
   \<and> modified thorough_example
   \<and> simplification_backend_PythonSimplifyStack example_backends
        (command_array thorough_example) = Inl OtherException
   \<and> update example_backends thorough_example = (Inl OtherException, thorough_example)
   \<and> GetComplexity example_backends thorough_example = (Inl OtherException, thorough_example)
   \<and> EvaluateEquationAt example_backends batch_1x1 thorough_example
       = (Inl OtherException, thorough_example)"
proof -
  have thorough: "use_simplification thorough_example"
    and stale: "modified thorough_example"
    using thorough_example_facts by simp_all
  have unavailable: "simplification_backend_PythonSimplifyStack example_backends
        (command_array thorough_example) = Inl OtherException"
    by (simp add: example_backends_def)
  from C3_oracle_failure_propagates [OF thorough,
      where bk = example_backends and e = OtherException and x = batch_1x1]
  show ?thesis
    using thorough stale unavailable by simp
qed

text \<open>
  Claim C3 as it is stated fails. The oracle is unavailable and the local simplifier would
  return the program: \<open>GetComplexity\<close> throws the oracle's exception, and the simplified
  program is not the local simplifier's result but what it was, the empty program, with the
  individual still stale.
\<close>

theorem C3_no_fallback_counterexample:
  "use_simplification thorough_example
   \<and> simplification_backend_PythonSimplifyStack example_backends
        (command_array thorough_example) = Inl OtherException
   \<and> simplification_backend_SimplifyStack example_backends
        (command_array thorough_example) = Inr example_program
   \<and> fst (GetComplexity example_backends thorough_example) = Inl OtherException
   \<and> simplified_command_array (snd (GetComplexity example_backends thorough_example)) = []
   \<and> modified (snd (GetComplexity example_backends thorough_example))"
  by (simp add: thorough_example_facts GetComplexity_def update_if_modified_def update_def
      updateSimplifiedCommandArray_def example_backends_def)

section \<open>Numeric failure in evaluation\<close>

lemma Constant_nan_filled: "nan_filled_like x (Constant (rows x) (cols x) kNaN)"
  by (simp add: nan_filled_like_def Constant_def rows_def kNaN_def)

lemma Constant_one_per_sample:
  "one_value_per_sample x (Constant (rows x) (cols x) kNaN) \<longleftrightarrow> cols x = 1"
  by (simp add: one_value_per_sample_def Constant_def rows_def)

text \<open>
  Claim C1, as amended. Let the prologue of \<open>EvaluateEquationAt\<close> return. If the backend's
  value evaluation of the simplified program throws an overflow or an underflow error,
  \<open>EvaluateEquationAt\<close> returns normally, with an array of the shape of the input batch \<open>x\<close>
  (\<open>x.rows()\<close> by \<open>x.cols()\<close>) whose every coefficient is NaN; that is one value per sample
  exactly when \<open>x\<close> has one column. If the backend returns a value, \<open>EvaluateEquationAt\<close>
  returns that value unchanged. Any other exception passes.
\<close>

theorem C1_EvaluateEquationAt_nan_of_input_shape:
  assumes "update_if_modified bk s = (Inr (), s1)"
  shows "(evaluation_backend_Evaluate bk (simplified_command_array s1) x
              (simplified_constants s1) = Inl OverflowError
          \<or> evaluation_backend_Evaluate bk (simplified_command_array s1) x
              (simplified_constants s1) = Inl UnderflowError
          \<longrightarrow> EvaluateEquationAt bk x s = (Inr (Constant (rows x) (cols x) kNaN), s1))
    \<and> nan_filled_like x (Constant (rows x) (cols x) kNaN)
    \<and> (one_value_per_sample x (Constant (rows x) (cols x) kNaN) \<longleftrightarrow> cols x = 1)
    \<and> (evaluation_backend_Evaluate bk (simplified_command_array s1) x
              (simplified_constants s1) = Inr f_of_x
          \<longrightarrow> EvaluateEquationAt bk x s = (Inr f_of_x, s1))
    \<and> (evaluation_backend_Evaluate bk (simplified_command_array s1) x
              (simplified_constants s1) = Inl OtherException
          \<longrightarrow> EvaluateEquationAt bk x s = (Inl OtherException, s1))"
  using assms Constant_nan_filled [of x] Constant_one_per_sample [of x]
  by (auto simp: EvaluateEquationAt_def)

lemma new_individual_prologue:
  "update_if_modified bk (AGraph u) = (Inr (), AGraph u)"
  by (simp add: update_if_modified_def AGraph_def)

text \<open>
  A new individual and the example evaluation backend: overflow on the batch of one sample
  with two features gives a one-by-two array of NaN, underflow on the batch with three
  features a one-by-three array of NaN, and the value for the batch with one feature comes
  back as the backend returned it.
\<close>

theorem C1_EvaluateEquationAt_nan_of_input_shape_witness:
  "update_if_modified example_backends (AGraph False) = (Inr (), AGraph False)
   \<and> evaluation_backend_Evaluate example_backends
        (simplified_command_array (AGraph False)) batch_1x2
        (simplified_constants (AGraph False)) = Inl OverflowError
   \<and> EvaluateEquationAt example_backends batch_1x2 (AGraph False)
       = (Inr \<lparr>cols = 2, coeffs = [[NaN, NaN]]\<rparr>, AGraph False)
   \<and> evaluation_backend_Evaluate example_backends
        (simplified_command_array (AGraph False)) batch_1x3
        (simplified_constants (AGraph False)) = Inl UnderflowError
   \<and> EvaluateEquationAt example_backends batch_1x3 (AGraph False)
       = (Inr \<lparr>cols = 3, coeffs = [[NaN, NaN, NaN]]\<rparr>, AGraph False)
   \<and> evaluation_backend_Evaluate example_backends
        (simplified_command_array (AGraph False)) batch_1x1
        (simplified_constants (AGraph False)) = Inr \<lparr>cols = 1, coeffs = [[Finite 0]]\<rparr>
   \<and> EvaluateEquationAt example_backends batch_1x1 (AGraph False)
       = (Inr \<lparr>cols = 1, coeffs = [[Finite 0]]\<rparr>, AGraph False)"
proof -
  have over: "evaluation_backend_Evaluate example_backends
        (simplified_command_array (AGraph False)) batch_1x2
        (simplified_constants (AGraph False)) = Inl OverflowError"
    by (simp add: example_backends_def batch_1x2_def)
  have under: "evaluation_backend_Evaluate example_backends
        (simplified_command_array (AGraph False)) batch_1x3
        (simplified_constants (AGraph False)) = Inl UnderflowError"
    by (simp add: example_backends_def batch_1x3_def)
  have ok: "evaluation_backend_Evaluate example_backends
        (simplified_command_array (AGraph False)) batch_1x1
        (simplified_constants (AGraph False)) = Inr \<lparr>cols = 1, coeffs = [[Finite 0]]\<rparr>"
    by (simp add: example_backends_def batch_1x1_def Constant_def rows_def)
  have n2: "Constant (rows batch_1x2) (cols batch_1x2) kNaN = \<lparr>cols = 2, coeffs = [[NaN, NaN]]\<rparr>"
    by (simp add: Constant_def batch_1x2_def rows_def kNaN_def numeral_eq_Suc)
  have n3: "Constant (rows batch_1x3) (cols batch_1x3) kNaN
              = \<lparr>cols = 3, coeffs = [[NaN, NaN, NaN]]\<rparr>"
    by (simp add: Constant_def batch_1x3_def rows_def kNaN_def numeral_eq_Suc)
  note prologue = new_individual_prologue [of example_backends False]
  from C1_EvaluateEquationAt_nan_of_input_shape [OF prologue, of batch_1x2]
    C1_EvaluateEquationAt_nan_of_input_shape [OF prologue, of batch_1x3]
    C1_EvaluateEquationAt_nan_of_input_shape
      [OF prologue, of batch_1x1 "\<lparr>cols = 1, coeffs = [[Finite 0]]\<rparr>"]
  show ?thesis
    using prologue over under ok by (simp add: n2 n3)
qed

text \<open>
  Claim C1 as it is stated fails: for one sample with two features the NaN array has two
  values for the sample, not the one value per sample of a successful evaluation.
\<close>

theorem C1_nan_shape_counterexample:
  "evaluation_backend_Evaluate example_backends
        (simplified_command_array (AGraph False)) batch_1x2
        (simplified_constants (AGraph False)) = Inl OverflowError
   \<and> fst (EvaluateEquationAt example_backends batch_1x2 (AGraph False))
       = Inr \<lparr>cols = 2, coeffs = [[NaN, NaN]]\<rparr>
   \<and> \<not> one_value_per_sample batch_1x2 \<lparr>cols = 2, coeffs = [[NaN, NaN]]\<rparr>"
  by (simp add: EvaluateEquationAt_def update_if_modified_def AGraph_def example_backends_def
      batch_1x2_def Constant_def rows_def kNaN_def one_value_per_sample_def numeral_eq_Suc)

lemma Constant_over_features: "jacobian_over_features x (Constant (rows x) (cols x) kNaN)"
  by (simp add: jacobian_over_features_def Constant_def rows_def)

lemma Constant_over_constants:
  "jacobian_over_constants x c (Constant (rows x) (cols x) kNaN) \<longleftrightarrow> cols x = rows c"
  by (simp add: jacobian_over_constants_def Constant_def rows_def)

text \<open>
  Claim C2, as amended. Let the prologue return. If the backend's derivative evaluation
  throws an overflow or an underflow error, \<open>EvaluateEquationWithXGradientAt\<close> (derivative
  with respect to the input variables) and \<open>EvaluateEquationWithLocalOptGradientAt\<close>
  (derivative with respect to the constants) each return normally, with a pair of two equal
  arrays of the shape of the input batch \<open>x\<close> whose every coefficient is NaN. That shape is
  the shape of a Jacobian over the feature axis; it is one value per sample exactly when \<open>x\<close>
  has one column, and the shape of a Jacobian over the constant-index axis exactly when \<open>x\<close>
  has as many columns as there are constants. If the backend returns a pair, each method
  returns it unchanged.
\<close>

theorem C2_gradient_nan_of_input_shape:
  assumes "update_if_modified bk s = (Inr (), s1)"
  shows "(evaluation_backend_EvaluateWithDerivative bk (simplified_command_array s1) x
              (simplified_constants s1) True = Inl OverflowError
          \<or> evaluation_backend_EvaluateWithDerivative bk (simplified_command_array s1) x
              (simplified_constants s1) True = Inl UnderflowError
          \<longrightarrow> EvaluateEquationWithXGradientAt bk x s
                = (Inr (Constant (rows x) (cols x) kNaN, Constant (rows x) (cols x) kNaN), s1))
    \<and> (evaluation_backend_EvaluateWithDerivative bk (simplified_command_array s1) x
              (simplified_constants s1) False = Inl OverflowError
          \<or> evaluation_backend_EvaluateWithDerivative bk (simplified_command_array s1) x
              (simplified_constants s1) False = Inl UnderflowError
          \<longrightarrow> EvaluateEquationWithLocalOptGradientAt bk x s
                = (Inr (Constant (rows x) (cols x) kNaN, Constant (rows x) (cols x) kNaN), s1))
    \<and> nan_filled_like x (Constant (rows x) (cols x) kNaN)
    \<and> jacobian_over_features x (Constant (rows x) (cols x) kNaN)
    \<and> (one_value_per_sample x (Constant (rows x) (cols x) kNaN) \<longleftrightarrow> cols x = 1)
    \<and> (jacobian_over_constants x (simplified_constants s1) (Constant (rows x) (cols x) kNaN)
          \<longleftrightarrow> cols x = rows (simplified_constants s1))
    \<and> (evaluation_backend_EvaluateWithDerivative bk (simplified_command_array s1) x
              (simplified_constants s1) True = Inr df_dx
          \<longrightarrow> EvaluateEquationWithXGradientAt bk x s = (Inr df_dx, s1))
    \<and> (evaluation_backend_EvaluateWithDerivative bk (simplified_command_array s1) x
              (simplified_constants s1) False = Inr df_dc
          \<longrightarrow> EvaluateEquationWithLocalOptGradientAt bk x s = (Inr df_dc, s1))"
proof -
  have xgrad: "evaluation_backend_EvaluateWithDerivative bk (simplified_command_array s1) x
              (simplified_constants s1) True = Inl OverflowError
          \<or> evaluation_backend_EvaluateWithDerivative bk (simplified_command_array s1) x
              (simplified_constants s1) True = Inl UnderflowError
          \<longrightarrow> EvaluateEquationWithXGradientAt bk x s
                = (Inr (Constant (rows x) (cols x) kNaN, Constant (rows x) (cols x) kNaN), s1)"
    using assms by (auto simp: EvaluateEquationWithXGradientAt_def Let_def)
  have cgrad: "evaluation_backend_EvaluateWithDerivative bk (simplified_command_array s1) x
              (simplified_constants s1) False = Inl OverflowError
          \<or> evaluation_backend_EvaluateWithDerivative bk (simplified_command_array s1) x
              (simplified_constants s1) False = Inl UnderflowError
          \<longrightarrow> EvaluateEquationWithLocalOptGradientAt bk x s
                = (Inr (Constant (rows x) (cols x) kNaN, Constant (rows x) (cols x) kNaN), s1)"
    using assms by (auto simp: EvaluateEquationWithLocalOptGradientAt_def Let_def)
  have xok: "evaluation_backend_EvaluateWithDerivative bk (simplified_command_array s1) x
              (simplified_constants s1) True = Inr df_dx
          \<longrightarrow> EvaluateEquationWithXGradientAt bk x s = (Inr df_dx, s1)"
    using assms by (auto simp: EvaluateEquationWithXGradientAt_def)
  have cok: "evaluation_backend_EvaluateWithDerivative bk (simplified_command_array s1) x
              (simplified_constants s1) False = Inr df_dc
          \<longrightarrow> EvaluateEquationWithLocalOptGradientAt bk x s = (Inr df_dc, s1)"
    using assms by (auto simp: EvaluateEquationWithLocalOptGradientAt_def)
  from xgrad cgrad xok cok Constant_nan_filled [of x] Constant_over_features [of x]
    Constant_one_per_sample [of x] Constant_over_constants [of x "simplified_constants s1"]
  show ?thesis by blast
qed

text \<open>
  A new individual and the example evaluation backend: on the batch of one sample with two
  features both methods return a pair of one-by-two arrays of NaN (overflow), on the batch
  with three features a pair of one-by-three arrays of NaN (underflow).
\<close>

theorem C2_gradient_nan_of_input_shape_witness:
  "update_if_modified example_backends (AGraph False) = (Inr (), AGraph False)
   \<and> evaluation_backend_EvaluateWithDerivative example_backends
        (simplified_command_array (AGraph False)) batch_1x2
        (simplified_constants (AGraph False)) True = Inl OverflowError
   \<and> EvaluateEquationWithXGradientAt example_backends batch_1x2 (AGraph False)
       = (Inr (\<lparr>cols = 2, coeffs = [[NaN, NaN]]\<rparr>, \<lparr>cols = 2, coeffs = [[NaN, NaN]]\<rparr>),
          AGraph False)
   \<and> evaluation_backend_EvaluateWithDerivative example_backends
        (simplified_command_array (AGraph False)) batch_1x3
        (simplified_constants (AGraph False)) False = Inl UnderflowError
   \<and> EvaluateEquationWithLocalOptGradientAt example_backends batch_1x3 (AGraph False)
       = (Inr (\<lparr>cols = 3, coeffs = [[NaN, NaN, NaN]]\<rparr>,
               \<lparr>cols = 3, coeffs = [[NaN, NaN, NaN]]\<rparr>), AGraph False)"
proof -
  have over: "evaluation_backend_EvaluateWithDerivative example_backends
        (simplified_command_array (AGraph False)) batch_1x2
        (simplified_constants (AGraph False)) True = Inl OverflowError"
    by (simp add: example_backends_def batch_1x2_def)
  have under: "evaluation_backend_EvaluateWithDerivative example_backends
        (simplified_command_array (AGraph False)) batch_1x3
        (simplified_constants (AGraph False)) False = Inl UnderflowError"
    by (simp add: example_backends_def batch_1x3_def)
  have n2: "Constant (rows batch_1x2) (cols batch_1x2) kNaN = \<lparr>cols = 2, coeffs = [[NaN, NaN]]\<rparr>"
    by (simp add: Constant_def batch_1x2_def rows_def kNaN_def numeral_eq_Suc)
  have n3: "Constant (rows batch_1x3) (cols batch_1x3) kNaN
              = \<lparr>cols = 3, coeffs = [[NaN, NaN, NaN]]\<rparr>"
    by (simp add: Constant_def batch_1x3_def rows_def kNaN_def numeral_eq_Suc)
  note prologue = new_individual_prologue [of example_backends False]
  from C2_gradient_nan_of_input_shape [OF prologue, of batch_1x2]
    C2_gradient_nan_of_input_shape [OF prologue, of batch_1x3]
  show ?thesis
    using prologue over under by (simp add: n2 n3)
qed

text \<open>
  Claim C2 as it is stated fails. For one sample with two features, the value array that
  either method returns on overflow has two values for the sample, not one; and for the
  individual with no constant, the derivative array of the constants method has two columns,
  not one column per constant.
\<close>

theorem C2_gradient_nan_shape_counterexample:
  "fst (EvaluateEquationWithXGradientAt example_backends batch_1x2 (AGraph False))
       = Inr (\<lparr>cols = 2, coeffs = [[NaN, NaN]]\<rparr>, \<lparr>cols = 2, coeffs = [[NaN, NaN]]\<rparr>)
   \<and> fst (EvaluateEquationWithLocalOptGradientAt example_backends batch_1x2 (AGraph False))
       = Inr (\<lparr>cols = 2, coeffs = [[NaN, NaN]]\<rparr>, \<lparr>cols = 2, coeffs = [[NaN, NaN]]\<rparr>)
   \<and> \<not> one_value_per_sample batch_1x2 \<lparr>cols = 2, coeffs = [[NaN, NaN]]\<rparr>
   \<and> rows (simplified_constants (AGraph False)) = 0
   \<and> \<not> jacobian_over_constants batch_1x2 (simplified_constants (AGraph False))
          \<lparr>cols = 2, coeffs = [[NaN, NaN]]\<rparr>"
  by (simp add: EvaluateEquationWithXGradientAt_def EvaluateEquationWithLocalOptGradientAt_def
      update_if_modified_def AGraph_def example_backends_def batch_1x2_def Constant_def
      rows_def kNaN_def one_value_per_sample_def jacobian_over_constants_def numeral_eq_Suc
      Let_def)

end
